theory Spec2Isabelle
  imports Complex_Main "HOL-Library.AList"
begin

section \<open>Data model of the zone host\<close>

text \<open>
  The repository holds two revisions of the server's \<^verbatim>\<open>host\<close> function: the older one
  (websocket \<^verbatim>\<open>join\<close> message with a resume token, called \<open>v0\<close> below) and the newer one
  (HTTP routes and join tickets, called \<open>v1\<close>).  Both keep the same closure variables, which
  are the fields of the record \<open>host\<close>.

  A user object is addressed by its user id: objects are only created by
  \<^verbatim>\<open>zone.getUser((++lastUserId).toString())\<close>, and the field \<^verbatim>\<open>userId\<close> is never assigned
  afterwards.  So the maps of the source that are keyed by the object (\<^verbatim>\<open>userToToken\<close>,
  \<^verbatim>\<open>userToIp\<close>, \<^verbatim>\<open>userToConnections\<close>) are keyed by the id here, a parameter \<^verbatim>\<open>user\<close> of
  the source is that id, \<^verbatim>\<open>user.userId\<close> is the parameter itself, and the other fields of the
  object are read from the store \<open>objects\<close>.  An object that was deleted from the registry
  \<^verbatim>\<open>zone.users\<close> stays in the store, as it stays alive in the closures of the source.
\<close>

type_synonym UserId = string
type_synonym conn = nat
type_synonym ip = string
type_synonym coords = "int list"

record UserState =
  name :: "string option"
  avatar :: "string option"
  position :: "coords option"
  emotes :: "string list"
  tags :: "string list"

text \<open>An echo is \<^verbatim>\<open>{ ...user, position, text }\<close>: the author's fields as they are when the echo
  is written, the position overwritten, and the text.\<close>

record UserEcho =
  echo_userId :: UserId
  echo_user :: UserState
  echo_text :: string

record Media =
  source :: string
  title :: string
  duration :: nat
  hasGetStatus :: bool

record QueueInfo =
  info_userId :: UserId
  info_ip :: "ip option"
  banger :: bool

record QueueItem =
  itemId :: nat
  media :: Media
  info :: QueueInfo

record Ban =
  bannee :: string
  banner :: string
  reason :: "string option"
  date :: string

record HostOptions =
  perUserQueueLimit :: rat
  voteSkipThreshold :: rat
  joinPassword :: "string option"

text \<open>Modelled from the spec: the state of the playback engine (class \<^verbatim>\<open>Playback\<close>, whose
  file is not among the sources): idle or playing an item since a start timestamp, the
  ordered queue of pending items, the last item id handed out, and the fixed startup delay.\<close>

record Playback =
  currentItem :: "QueueItem option"
  currentBeginTime :: int
  queue :: "QueueItem list"
  lastItemId :: nat
  startDelay :: int

datatype message =
    Reject string
  | Assign UserId string
  | Users "(UserId \<times> UserState) list"
  | UserMsg UserId UserState
  | Leave UserId
  | Status string
  | QueueMsg "QueueItem list"
  | Play "(QueueItem \<times> int) option"
  | Unqueue nat
  | EchoesAdded "UserEcho list"
  | EchoesRemoved "coords list"

text \<open>What the host does to the outside: \<^verbatim>\<open>sendAll\<close> (with the channels of the connection
  table it iterates), a \<^verbatim>\<open>send\<close> on one channel, and the close of a socket.\<close>

datatype sent =
    SendAll message "conn list"
  | Send message conn
  | CloseSocket conn nat

datatype exn = TypeError | Error string

record host =
  opts :: HostOptions
  bans :: "ip \<rightharpoonup> Ban"
  ipToNetworkId :: "(ip \<times> string) list"
  networkIdToIp :: "(string \<times> ip) list"
  lastUserId :: nat
  tokenToUser :: "string \<rightharpoonup> UserId"
  userToToken :: "UserId \<rightharpoonup> string"
  userToIp :: "UserId \<rightharpoonup> ip"
  connections :: "(UserId \<times> conn) list"
  userToConnections :: "UserId \<rightharpoonup> conn list"
  zone_users :: "UserId list"
  objects :: "UserId \<Rightarrow> UserState"
  zone_echoes :: "(coords \<times> UserEcho) list"
  playback :: Playback
  eventMode :: bool
  skips :: "UserId list"
  waiting :: "(conn \<times> ip) list"
  bound :: "(conn \<times> UserId) list"
  timers :: "UserId list"
  tickets :: "(string \<times> string \<times> string) list"
  clock :: int
  outbox :: "sent list"

text \<open>
  \<open>waiting\<close> are the sockets whose \<^verbatim>\<open>once('join')\<close> listener is registered, \<open>bound\<close> the
  sockets whose \<^verbatim>\<open>close\<close> listener is registered (with the user of its closure), \<open>timers\<close>
  the pending \<^verbatim>\<open>setTimeout\<close> callbacks of the close listener (with the user of their
  closure), \<open>tickets\<close> the join tickets of the newer revision (name and avatar),
  \<open>clock\<close> the reading of the wall clock and \<open>outbox\<close> everything sent so far.
\<close>

section \<open>Sets and strings of the source language\<close>

text \<open>A \<^verbatim>\<open>Set\<close> (and the keys of a \<^verbatim>\<open>Map\<close>) keeps insertion order and holds no element twice.\<close>

definition set_add :: "'a \<Rightarrow> 'a list \<Rightarrow> 'a list" where
  "set_add x xs = (if x \<in> set xs then xs else xs @ [x])"

definition digit :: "nat \<Rightarrow> char" where
  "digit d = (''0123456789'' ! d)"

function show_nat :: "nat \<Rightarrow> string" where
  "show_nat n = (if 10 \<le> n then show_nat (n div 10) else []) @ [digit (n mod 10)]"
  by pat_completeness auto
termination
  by (relation "measure id") auto

declare show_nat.simps [simp del]

text \<open>The decimal text of a whole number, as a template string prints it.\<close>

definition show_int :: "int \<Rightarrow> string" where
  "show_int i = (if 0 \<le> i then show_nat (nat i) else CHR ''-'' # show_nat (nat (- i)))"

section \<open>Sending\<close>

definition sendAll :: "message \<Rightarrow> host \<Rightarrow> host" where
  "sendAll m s = s\<lparr>outbox := outbox s @ [SendAll m (map snd (connections s))]\<rparr>"

text \<open>\<^verbatim>\<open>connections.get(userId)!.send(type, message)\<close>: without an entry the call is a
  property access on \<^verbatim>\<open>undefined\<close>, a \<^verbatim>\<open>TypeError\<close>.\<close>

definition sendOnly :: "message \<Rightarrow> UserId \<Rightarrow> host \<Rightarrow> exn option \<times> host" where
  "sendOnly m userId s =
     (case map_of (connections s) userId of
        None \<Rightarrow> (Some TypeError, s)
      | Some c \<Rightarrow> (None, s\<lparr>outbox := outbox s @ [Send m c]\<rparr>))"

text \<open>Sequencing of statements that can throw: the rest runs only after a normal return.\<close>

definition and_then :: "exn option \<times> host \<Rightarrow> (host \<Rightarrow> exn option \<times> host) \<Rightarrow> exn option \<times> host" where
  "and_then r f = (case r of (None, s) \<Rightarrow> f s | (Some e, s) \<Rightarrow> (Some e, s))"

definition status :: "string \<Rightarrow> host \<Rightarrow> host" where
  "status txt s = sendAll (Status txt) s"

definition status_user :: "string \<Rightarrow> UserId \<Rightarrow> host \<Rightarrow> exn option \<times> host" where
  "status_user txt user s = sendOnly (Status txt) user s"

section \<open>Tokens and connections of a user\<close>

definition addUserToken :: "UserId \<Rightarrow> string \<Rightarrow> host \<Rightarrow> host" where
  "addUserToken user token s =
     s\<lparr>tokenToUser := (tokenToUser s)(token \<mapsto> user), userToToken := (userToToken s)(user \<mapsto> token)\<rparr>"

text \<open>\<^verbatim>\<open>if (token) tokenToUser.delete(token)\<close>: the empty string is falsy.\<close>

definition revokeUserToken :: "UserId \<Rightarrow> host \<Rightarrow> host" where
  "revokeUserToken user s =
     (let s1 = (case userToToken s user of
                  None \<Rightarrow> s
                | Some token \<Rightarrow>
                    if token \<noteq> [] then s\<lparr>tokenToUser := (tokenToUser s)(token := None)\<rparr> else s)
      in s1\<lparr>userToToken := (userToToken s1)(user := None)\<rparr>)"

definition addConnectionToUser :: "UserId \<Rightarrow> conn \<Rightarrow> host \<Rightarrow> host" where
  "addConnectionToUser user messaging s =
     (let cs = (case userToConnections s user of None \<Rightarrow> [] | Some cs \<Rightarrow> cs)
      in s\<lparr>userToConnections := (userToConnections s)(user \<mapsto> set_add messaging cs)\<rparr>)"

definition removeConnectionFromUser :: "UserId \<Rightarrow> conn \<Rightarrow> host \<Rightarrow> host" where
  "removeConnectionFromUser user messaging s =
     (case userToConnections s user of
        None \<Rightarrow> s
      | Some cs \<Rightarrow> s\<lparr>userToConnections := (userToConnections s)(user \<mapsto> removeAll messaging cs)\<rparr>)"

definition isUserConnectionless :: "UserId \<Rightarrow> host \<Rightarrow> bool" where
  "isUserConnectionless user s =
     (case userToConnections s user of None \<Rightarrow> True | Some cs \<Rightarrow> cs = [])"

definition killUser :: "UserId \<Rightarrow> host \<Rightarrow> host" where
  "killUser user s =
     (let s1 = (if user \<in> set (zone_users s) then sendAll (Leave user) s else s);
          s2 = s1\<lparr>zone_users := removeAll user (zone_users s1)\<rparr>;
          s3 = s2\<lparr>connections := AList.delete user (connections s2)\<rparr>;
          s4 = s3\<lparr>userToConnections := (userToConnections s3)(user := None)\<rparr>
      in revokeUserToken user s4)"

section \<open>The playback engine\<close>

text \<open>
  The class \<^verbatim>\<open>Playback\<close> is imported by both revisions of the host and is not among the
  sources, so its operations follow the spec (section 4.3).  An operation returns the
  events it emits, in order, with the new state; the host's listeners run on them
  afterwards.  \<open>now\<close> is the reading of the wall clock.
\<close>

datatype event =
    EvQueue QueueItem
  | EvPlay QueueItem
  | EvStop
  | EvUnqueue QueueItem
  | EvFailed QueueItem

text \<open>Modelled from the spec: elapsed time of the playing item, "elapsed = now - start"
  (the getter \<^verbatim>\<open>playback.currentTime\<close>).\<close>

definition currentTime :: "int \<Rightarrow> Playback \<Rightarrow> int" where
  "currentTime now p = now - currentBeginTime p"

text \<open>Modelled from the spec: promotion of an item to playing, "after a fixed startup delay
  ... and starts its clock", which emits \<^verbatim>\<open>play\<close>.\<close>

definition promote :: "int \<Rightarrow> QueueItem \<Rightarrow> Playback \<Rightarrow> event list \<times> Playback" where
  "promote now item p =
     ([EvPlay item], p\<lparr>currentItem := Some item, currentBeginTime := now + startDelay p\<rparr>)"

text \<open>Modelled from the spec: \<^verbatim>\<open>Playback.queueMedia(media, info)\<close> "appends a new QueueItem with
  a freshly allocated monotonic id; if idle, immediately promotes the new item to playing
  ...; emits queued always, and playing when promotion occurs".\<close>

definition Playback_queueMedia :: "int \<Rightarrow> Media \<Rightarrow> QueueInfo \<Rightarrow> Playback \<Rightarrow> event list \<times> Playback" where
  "Playback_queueMedia now m i p =
     (let item = \<lparr>itemId = lastItemId p + 1, media = m, info = i\<rparr>;
          p1 = p\<lparr>lastItemId := lastItemId p + 1\<rparr>
      in if currentItem p1 = None
         then (let (evs, p2) = promote now item p1 in (EvQueue item # evs, p2))
         else ([EvQueue item], p1\<lparr>queue := queue p1 @ [item]\<rparr>))"

text \<open>Modelled from the spec: \<^verbatim>\<open>Playback.skip()\<close> "discards the current item ... and if the
  queue is non-empty promotes its head to playing ...; otherwise transitions to idle and
  emits stopped".  The skip-vote set is a variable of the host, which the engine cannot
  reach: it is cleared by the host's listener of \<^verbatim>\<open>play\<close> (see \<open>listeners\<close>).\<close>

definition Playback_skip :: "int \<Rightarrow> Playback \<Rightarrow> event list \<times> Playback" where
  "Playback_skip now p =
     (case queue p of
        [] \<Rightarrow> ([EvStop], p\<lparr>currentItem := None\<rparr>)
      | item # rest \<Rightarrow> promote now item (p\<lparr>queue := rest\<rparr>))"

text \<open>Modelled from the spec: \<^verbatim>\<open>Playback.unqueue(item)\<close> "removes a specific pending QueueItem
  by identity; no-op if not found; never removes the currently playing item"; it emits
  \<^verbatim>\<open>unqueue\<close> when it removed the item.\<close>

definition Playback_unqueue :: "QueueItem \<Rightarrow> Playback \<Rightarrow> event list \<times> Playback" where
  "Playback_unqueue item p =
     (if item \<in> set (queue p) then ([EvUnqueue item], p\<lparr>queue := remove1 item (queue p)\<rparr>)
      else ([], p))"

section \<open>The host's listeners of the playback events\<close>

text \<open>
  \<^verbatim>\<open>playback.on('queue', ...)\<close>, \<^verbatim>\<open>on('play', ...)\<close> (two listeners: the broadcast, then
  \<^verbatim>\<open>skips.clear()\<close>), \<^verbatim>\<open>on('stop', ...)\<close> and \<^verbatim>\<open>on('unqueue', ...)\<close>.  The listener of
  \<^verbatim>\<open>failed\<close> calls \<^verbatim>\<open>skip\<close> and is \<open>on_failed\<close> below.
\<close>

definition listeners :: "event \<Rightarrow> host \<Rightarrow> host" where
  "listeners ev s =
     (case ev of
        EvQueue item \<Rightarrow> sendAll (QueueMsg [item]) s
      | EvPlay item \<Rightarrow>
          (sendAll (Play (Some (item, currentTime (clock s) (playback s)))) s)\<lparr>skips := []\<rparr>
      | EvStop \<Rightarrow> sendAll (Play None) s
      | EvUnqueue item \<Rightarrow> sendAll (Unqueue (itemId item)) s
      | EvFailed item \<Rightarrow> s)"

definition emit_all :: "event list \<Rightarrow> host \<Rightarrow> host" where
  "emit_all evs s = fold listeners evs s"

text \<open>\<^verbatim>\<open>function skip(message?: string) { if (message) status(message); playback.skip(); }\<close>\<close>

definition skip :: "string option \<Rightarrow> host \<Rightarrow> host" where
  "skip message s =
     (let s1 = (case message of None \<Rightarrow> s | Some m \<Rightarrow> if m \<noteq> [] then status m s else s);
          r = Playback_skip (clock s1) (playback s1)
      in emit_all (fst r) (s1\<lparr>playback := snd r\<rparr>))"

definition on_failed :: "QueueItem \<Rightarrow> host \<Rightarrow> host" where
  "on_failed item s = skip (Some ''video failed to load'') s"

definition queueMedia :: "Media \<Rightarrow> QueueInfo \<Rightarrow> host \<Rightarrow> host" where
  "queueMedia m i s =
     (let r = Playback_queueMedia (clock s) m i (playback s)
      in emit_all (fst r) (s\<lparr>playback := snd r\<rparr>))"

definition unqueue :: "QueueItem \<Rightarrow> host \<Rightarrow> host" where
  "unqueue item s =
     (let r = Playback_unqueue item (playback s)
      in emit_all (fst r) (s\<lparr>playback := snd r\<rparr>))"

section \<open>Voting to skip\<close>

text \<open>
  \<^verbatim>\<open>Math.ceil(zone.users.size * opts.voteSkipThreshold)\<close>.  The threshold is read as the
  rational number it denotes and the product is exact; the rounding of the floating point
  product is not modelled.
\<close>

definition skip_target :: "host \<Rightarrow> int" where
  "skip_target s = \<lceil>of_nat (length (zone_users s)) * voteSkipThreshold (opts s)\<rceil>"

definition cast_vote :: "QueueItem \<Rightarrow> UserId \<Rightarrow> host \<Rightarrow> host" where
  "cast_vote cur user s =
     (let s1 = s\<lparr>skips := set_add user (skips s)\<rparr>;
          current = length (skips s1);
          target = skip_target s1
      in if int current \<ge> target
         then skip (Some (''voted to skip '' @ title (media cur))) s1
         else status (show_nat current @ '' of '' @ show_int target @ '' votes to skip'') s1)"

text \<open>The older revision names the playing item by the source of its media, the newer
  one by its item id; the rest of \<^verbatim>\<open>voteSkip\<close> is the same text, \<open>cast_vote\<close>.\<close>

definition voteSkip_v0 :: "string \<Rightarrow> UserId \<Rightarrow> host \<Rightarrow> host" where
  "voteSkip_v0 src user s =
     (case currentItem (playback s) of
        None \<Rightarrow> s
      | Some cur \<Rightarrow> if source (media cur) \<noteq> src then s else cast_vote cur user s)"

definition voteSkip_v1 :: "nat \<Rightarrow> UserId \<Rightarrow> host \<Rightarrow> host" where
  "voteSkip_v1 iid user s =
     (case currentItem (playback s) of
        None \<Rightarrow> s
      | Some cur \<Rightarrow> if itemId cur \<noteq> iid then s else cast_vote cur user s)"

section \<open>Queueing media\<close>

text \<open>Modelled from the spec: \<^verbatim>\<open>mediaEquals\<close> of \<^verbatim>\<open>common/zone\<close> (not among the sources)
  compares the identity of two media, "content source descriptor sufficient for equality
  comparison".  The newer revision compares the field \<^verbatim>\<open>src\<close> with \<^verbatim>\<open>===\<close> in place; both
  are the field \<open>source\<close> here.\<close>

definition mediaEquals :: "Media \<Rightarrow> Media \<Rightarrow> bool" where
  "mediaEquals a b = (source a = source b)"

definition quoted :: "string \<Rightarrow> string" where
  "quoted t = CHR 0x27 # t @ [CHR 0x27]"

definition dquoted :: "string \<Rightarrow> string" where
  "dquoted t = CHR 0x22 # t @ [CHR 0x22]"

definition tryQueueMedia_v0 :: "UserId \<Rightarrow> Media \<Rightarrow> bool \<Rightarrow> host \<Rightarrow> exn option \<times> host" where
  "tryQueueMedia_v0 user m bng s =
     (if eventMode s \<and> ''dj'' \<notin> set (tags (objects s user))
      then status_user ''zone is currently in event mode, only djs may queue'' user s
      else
        (let userIp = userToIp s user;
             existing = find (\<lambda>queued. mediaEquals (media queued) m) (queue (playback s));
             count = length (filter (\<lambda>item. info_ip (info item) = userIp) (queue (playback s)));
             dj = (eventMode s \<and> ''dj'' \<in> set (tags (objects s user)))
         in case existing of
              Some queued \<Rightarrow> status_user (quoted (title (media queued)) @ '' is already queued'') user s
            | None \<Rightarrow>
                if \<not> dj \<and> of_nat count \<ge> perUserQueueLimit (opts s)
                then status_user (''you already have '' @ show_nat count @ '' videos in the queue'') user s
                else (None, queueMedia m \<lparr>info_userId = user, info_ip = userIp, banger = bng\<rparr> s)))"

definition tryQueueMedia_v1 :: "UserId \<Rightarrow> Media \<Rightarrow> bool \<Rightarrow> host \<Rightarrow> exn option \<times> host" where
  "tryQueueMedia_v1 user m bng s =
     (if eventMode s \<and> ''dj'' \<notin> set (tags (objects s user))
      then (Some (Error ''only djs may queue during event mode''), s)
      else
        (let userIp = userToIp s user;
             existing = find (\<lambda>queued. source (media queued) = source m) (queue (playback s));
             count = length (filter (\<lambda>item. info_ip (info item) = userIp) (queue (playback s)));
             dj = (eventMode s \<and> ''dj'' \<in> set (tags (objects s user)))
         in case existing of
              Some queued \<Rightarrow> (Some (Error (quoted (title (media queued)) @ '' is already queued'')), s)
            | None \<Rightarrow>
                if \<not> dj \<and> of_nat count \<ge> perUserQueueLimit (opts s)
                then (Some (Error (''you already have '' @ show_nat count @ '' videos in the queue'')), s)
                else (None, queueMedia m \<lparr>info_userId = user, info_ip = userIp, banger = bng\<rparr> s)))"

section \<open>The skip route\<close>

text \<open>What a route handler does to its request: a response with a status code and a body,
  no response at all (the handler returned before sending one), or an exception.\<close>

datatype reply = Reply nat string | NoReply | Thrown exn

definition show_name :: "string option \<Rightarrow> string" where
  "show_name n = (case n of None \<Rightarrow> ''undefined'' | Some t \<Rightarrow> t)"

text \<open>\<^verbatim>\<open>post('/queue/skip')\<close> of the older revision, after \<^verbatim>\<open>requireUserToken\<close> has resolved
  the user.\<close>

definition queue_skip_v0 :: "UserId \<Rightarrow> string \<Rightarrow> host \<Rightarrow> reply \<times> host" where
  "queue_skip_v0 user src s =
     (case currentItem (playback s) of
        None \<Rightarrow> (NoReply, s)
      | Some cur \<Rightarrow>
          if source (media cur) \<noteq> src then (NoReply, s)
          else if \<not> eventMode s then (Reply 202 [], voteSkip_v0 src user s)
          else if ''dj'' \<in> set (tags (objects s user))
          then (Reply 202 [],
                skip (Some (show_name (name (objects s user)) @ '' skipped '' @ title (media cur))) s)
          else (case status_user ''can't skip during event mode'' user s of
                  (None, s1) \<Rightarrow> (Reply 202 [], s1)
                | (Some e, s1) \<Rightarrow> (Thrown e, s1)))"

text \<open>\<^verbatim>\<open>post('/queue/skip')\<close> of the newer revision.\<close>

definition queue_skip_v1 :: "UserId \<Rightarrow> nat \<Rightarrow> host \<Rightarrow> reply \<times> host" where
  "queue_skip_v1 user iid s =
     (case currentItem (playback s) of
        None \<Rightarrow> (Reply 404 (''queue item '' @ show_nat iid @ '' is not playing''), s)
      | Some cur \<Rightarrow>
          if itemId cur \<noteq> iid then (Reply 404 (''queue item '' @ show_nat iid @ '' is not playing''), s)
          else if \<not> eventMode s then (Reply 202 [], voteSkip_v1 iid user s)
          else if ''dj'' \<in> set (tags (objects s user))
          then (Reply 204 [],
                skip (Some (show_name (name (objects s user)) @ '' skipped '' @ title (media cur))) s)
          else (Reply 403 ''can't skip during event mode'', s))"

section \<open>Echoes\<close>






section \<open>Joining\<close>

definition default_user :: UserState where
  "default_user = \<lparr>name = None, avatar = None, position = None, emotes = [], tags = []\<rparr>"

text \<open>Modelled from the spec: \<^verbatim>\<open>ZoneState.getUser(id)\<close> "has get-or-create semantics: if
  absent, a new User with default attributes is created and stored".\<close>

definition getUser :: "UserId \<Rightarrow> host \<Rightarrow> host" where
  "getUser userId s =
     (if userId \<in> set (zone_users s) then s
      else s\<lparr>zone_users := zone_users s @ [userId], objects := (objects s)(userId := default_user)\<rparr>)"

text \<open>\<^verbatim>\<open>getDefault(ipToNetworkId, ip, () => ipToNetworkId.size.toString())\<close> and the reverse
  entry.\<close>

definition getNetworkIdFromIp :: "ip \<Rightarrow> host \<Rightarrow> host" where
  "getNetworkIdFromIp a s =
     (case map_of (ipToNetworkId s) a of
        Some networkId \<Rightarrow> s\<lparr>networkIdToIp := AList.update networkId a (networkIdToIp s)\<rparr>
      | None \<Rightarrow>
          s\<lparr>ipToNetworkId := AList.update a (show_nat (length (ipToNetworkId s))) (ipToNetworkId s),
            networkIdToIp := AList.update (show_nat (length (ipToNetworkId s))) a (networkIdToIp s)\<rparr>)"

definition sendCurrent :: "UserId \<Rightarrow> host \<Rightarrow> exn option \<times> host" where
  "sendCurrent user s =
     (case currentItem (playback s) of
        Some item \<Rightarrow> sendOnly (Play (Some (item, currentTime (clock s) (playback s)))) user s
      | None \<Rightarrow> sendOnly (Play None) user s)"

definition sendCoreState :: "UserId \<Rightarrow> host \<Rightarrow> exn option \<times> host" where
  "sendCoreState user s =
     and_then (sendOnly (Users (map (\<lambda>u. (u, objects s u)) (zone_users s))) user s) (\<lambda>s1.
     and_then (sendOnly (QueueMsg (queue (playback s1))) user s1) (\<lambda>s2.
     sendCurrent user s2))"

definition sendOtherState :: "UserId \<Rightarrow> host \<Rightarrow> exn option \<times> host" where
  "sendOtherState user s = sendOnly (EchoesAdded (map snd (zone_echoes s))) user s"

text \<open>What \<^verbatim>\<open>sendCoreState\<close> sends when the user has a channel: the roster, the queue and
  the playing item with its elapsed time.\<close>

definition core_messages :: "host \<Rightarrow> message list" where
  "core_messages s =
     [Users (map (\<lambda>u. (u, objects s u)) (zone_users s)),
      QueueMsg (queue (playback s)),
      Play (map_option (\<lambda>item. (item, clock s - currentBeginTime (playback s)))
              (currentItem (playback s)))]"

record JoinMessage =
  join_name :: string
  join_token :: "string option"
  join_password :: "string option"

text \<open>\<^verbatim>\<open>waitJoin(websocket, userIp)\<close> of the older revision: the ban check, and otherwise the
  registration of the listener of the first \<^verbatim>\<open>join\<close> message.\<close>

definition waitJoin :: "conn \<Rightarrow> ip \<Rightarrow> host \<Rightarrow> host" where
  "waitJoin messaging userIp s =
     (if bans s userIp \<noteq> None
      then s\<lparr>outbox := outbox s @ [Send (Reject ''you are banned'') messaging, CloseSocket messaging 4001]\<rparr>
      else s\<lparr>waiting := AList.update messaging userIp (waiting s)\<rparr>)"

text \<open>\<^verbatim>\<open>message.token && tokenToUser.has(message.token)\<close>, with the user it resolves to.\<close>

definition resumed :: "JoinMessage \<Rightarrow> host \<Rightarrow> UserId option" where
  "resumed msg s =
     (case join_token msg of
        None \<Rightarrow> None
      | Some t \<Rightarrow> if t \<noteq> [] then tokenToUser s t else None)"

definition authorised :: "JoinMessage \<Rightarrow> host \<Rightarrow> bool" where
  "authorised msg s =
     (resumed msg s \<noteq> None \<or> joinPassword (opts s) = None \<or> joinPassword (opts s) = Some []
      \<or> join_password msg = joinPassword (opts s))"

text \<open>The statements of the listener from \<^verbatim>\<open>addUserToken\<close> to the registration of the
  close listener.  \<^verbatim>\<open>bindMessagingToUser\<close> registers listeners of the channel; the older
  revision evaluates \<^verbatim>\<open>getNetworkIdFromIp(userIp)\<close> for its third argument, the newer one
  has no such tables (\<open>networkIds\<close> tells which revision runs).\<close>

definition bind_user :: "bool \<Rightarrow> UserId \<Rightarrow> string \<Rightarrow> conn \<Rightarrow> ip \<Rightarrow> host \<Rightarrow> host" where
  "bind_user networkIds user token messaging userIp s =
     (let s1 = addUserToken user token s;
          s2 = addConnectionToUser user messaging s1;
          s3 = s2\<lparr>userToIp := (userToIp s2)(user \<mapsto> userIp)\<rparr>;
          s4 = (if networkIds then getNetworkIdFromIp userIp s3 else s3);
          s5 = s4\<lparr>connections := AList.update user messaging (connections s4)\<rparr>
      in s5\<lparr>bound := AList.update messaging user (bound s5)\<rparr>)"

definition set_name :: "UserId \<Rightarrow> string \<Rightarrow> host \<Rightarrow> host" where
  "set_name user n s = s\<lparr>objects := (objects s)(user := (objects s user)\<lparr>name := Some n\<rparr>)\<rparr>"

text \<open>The listener of the first \<^verbatim>\<open>join\<close> message; \<open>fresh\<close> is what \<^verbatim>\<open>nanoid()\<close> returns and
  \<open>set_name\<close> is \<^verbatim>\<open>user.name = message.name\<close>.\<close>

definition join_listener :: "conn \<Rightarrow> ip \<Rightarrow> JoinMessage \<Rightarrow> string \<Rightarrow> host \<Rightarrow> exn option \<times> host" where
  "join_listener messaging userIp msg fresh s =
     (if \<not> authorised msg s
      then (None, s\<lparr>outbox := outbox s @ [Send (Reject ''rejected: password required'') messaging,
                                          CloseSocket messaging 4000]\<rparr>)
      else
        (case resumed msg s of
           Some user \<Rightarrow>
             (let token = (case join_token msg of Some t \<Rightarrow> t | None \<Rightarrow> fresh);
                  s1 = set_name user (join_name msg) s;
                  s2 = bind_user True user token messaging userIp s1
              in and_then (sendCoreState user s2) (\<lambda>s3.
                 and_then (sendOnly (Assign user token) user s3) (\<lambda>s4.
                 sendOtherState user s4)))
         | None \<Rightarrow>
             (let user = show_nat (lastUserId s + 1);
                  s0 = getUser user (s\<lparr>lastUserId := lastUserId s + 1\<rparr>);
                  s1 = set_name user (join_name msg) s0;
                  s2 = bind_user True user fresh messaging userIp s1
              in and_then (sendCoreState user s2) (\<lambda>s3.
                 and_then (sendOnly (Assign user fresh) user s3) (\<lambda>s4.
                 sendOtherState user (sendAll (UserMsg user (objects s4 user)) s4))))))"

text \<open>A \<^verbatim>\<open>join\<close> message arriving on a socket: the listener was registered with \<^verbatim>\<open>once\<close>, so
  it runs for the first message of a waiting socket and for nothing else.\<close>

definition on_join :: "conn \<Rightarrow> JoinMessage \<Rightarrow> string \<Rightarrow> host \<Rightarrow> exn option \<times> host" where
  "on_join messaging msg fresh s =
     (case map_of (waiting s) messaging of
        None \<Rightarrow> (None, s)
      | Some userIp \<Rightarrow>
          join_listener messaging userIp msg fresh (s\<lparr>waiting := AList.delete messaging (waiting s)\<rparr>))"

section \<open>Closing\<close>

text \<open>The listener of \<^verbatim>\<open>close\<close> (the same text in both revisions), and the callback it hands
  to \<^verbatim>\<open>setTimeout\<close>.\<close>

definition close_listener :: "UserId \<Rightarrow> conn \<Rightarrow> nat \<Rightarrow> host \<Rightarrow> host" where
  "close_listener user messaging code s =
     (let s1 = removeConnectionFromUser user messaging s;
          cleanExit = (code = 1000 \<or> code = 1001)
      in if cleanExit then killUser user s1 else s1\<lparr>timers := timers s1 @ [user]\<rparr>)"

definition timeout_callback :: "UserId \<Rightarrow> host \<Rightarrow> host" where
  "timeout_callback user s = (if isUserConnectionless user s then killUser user s else s)"

text \<open>A socket closes: its listener runs if one is registered.  A timer fires: it is one of
  the pending ones, and it is pending no more.\<close>

definition on_close :: "conn \<Rightarrow> nat \<Rightarrow> host \<Rightarrow> host" where
  "on_close messaging code s =
     (case map_of (bound s) messaging of
        None \<Rightarrow> s
      | Some user \<Rightarrow> close_listener user messaging code (s\<lparr>bound := AList.delete messaging (bound s)\<rparr>))"

definition on_timer :: "UserId \<Rightarrow> host \<Rightarrow> host" where
  "on_timer user s =
     (if user \<in> set (timers s) then timeout_callback user (s\<lparr>timers := remove1 user (timers s)\<rparr>)
      else s)"

section \<open>The newer revision: ban middleware, tickets, health check\<close>

definition requireNotBanned :: "ip \<Rightarrow> host \<Rightarrow> reply option" where
  "requireNotBanned a s = (if bans s a \<noteq> None then Some (Reply 403 ''you are banned'') else None)"

text \<open>\<^verbatim>\<open>post('/zone/join')\<close> behind \<^verbatim>\<open>use(requireNotBanned)\<close>: a ticket for the name and the
  avatar of the request; \<open>fresh\<close> is what \<^verbatim>\<open>nanoid()\<close> returns.\<close>

definition zone_join :: "ip \<Rightarrow> string \<Rightarrow> string \<Rightarrow> string \<Rightarrow> host \<Rightarrow> reply \<times> host" where
  "zone_join a n av fresh s =
     (case requireNotBanned a s of
        Some r \<Rightarrow> (r, s)
      | None \<Rightarrow> (Reply 200 fresh, s\<lparr>tickets := AList.update fresh (n, av) (tickets s)\<rparr>))"

text \<open>\<^verbatim>\<open>ws('/zone/:ticket')\<close> behind \<^verbatim>\<open>use(requireNotBanned)\<close> and \<^verbatim>\<open>param('ticket')\<close>: every
  socket that gets through is given a new user; no token is read.\<close>

definition ws_zone_ticket :: "conn \<Rightarrow> ip \<Rightarrow> string \<Rightarrow> string \<Rightarrow> host \<Rightarrow> reply \<times> host" where
  "ws_zone_ticket messaging a ticket fresh s =
     (case requireNotBanned a s of
        Some r \<Rightarrow> (r, s)
      | None \<Rightarrow>
          (case map_of (tickets s) ticket of
             None \<Rightarrow> (Reply 404 [], s)
           | Some (ticket_name, ticket_avatar) \<Rightarrow>
               (let user = show_nat (lastUserId s + 1);
                    s0 = getUser user (s\<lparr>lastUserId := lastUserId s + 1\<rparr>);
                    s1 = s0\<lparr>objects := (objects s0)(user := (objects s0 user)
                              \<lparr>name := Some ticket_name, avatar := Some ticket_avatar\<rparr>)\<rparr>;
                    s2 = sendAll (UserMsg user (objects s1 user)) s1;
                    s3 = bind_user False user fresh messaging a s2;
                    r = and_then (sendCoreState user s3) (\<lambda>s4.
                        and_then (sendOnly (Assign user fresh) user s4) (\<lambda>s5.
                        sendOtherState user s5))
                in case r of (None, s6) \<Rightarrow> (NoReply, s6) | (Some e, s6) \<Rightarrow> (Thrown e, s6))))"

datatype MediaStatus = Available | Pending | MediaFailed

text \<open>\<^verbatim>\<open>getMediaStatus\<close>: \<open>probe\<close> is what awaiting \<^verbatim>\<open>media.getStatus()\<close> gives.\<close>

definition getMediaStatus :: "(Media \<Rightarrow> MediaStatus) \<Rightarrow> Media \<Rightarrow> MediaStatus" where
  "getMediaStatus probe m = (if hasGetStatus m then probe m else Available)"

text \<open>One of the checks of \<^verbatim>\<open>checkQueue\<close>, from the point where its probe has answered; it
  runs on the state of that moment.\<close>

definition check_item :: "(Media \<Rightarrow> MediaStatus) \<Rightarrow> QueueItem \<Rightarrow> host \<Rightarrow> host" where
  "check_item probe item s =
     (if getMediaStatus probe (media item) = MediaFailed
      then status (''failed to load '' @ dquoted (title (media item))) (unqueue item s)
      else s)"

text \<open>\<^verbatim>\<open>checkQueue\<close> with every probe answering before anything else happens: the checks of
  the items that were pending at the call, in queue order.\<close>

definition checkQueue :: "(Media \<Rightarrow> MediaStatus) \<Rightarrow> host \<Rightarrow> host" where
  "checkQueue probe s = fold (check_item probe) (queue (playback s)) s"

section \<open>Two runs of the host\<close>

text \<open>
  The host as \<^verbatim>\<open>host()\<close> leaves it, with \<^verbatim>\<open>DEFAULT_OPTIONS\<close> (a vote-skip threshold of 0.6, a
  queue limit of 3, a startup delay of one second).
\<close>

definition options0 :: HostOptions where
  "options0 = \<lparr>perUserQueueLimit = 3, voteSkipThreshold = 3 / 5, joinPassword = None\<rparr>"

definition playback0 :: Playback where
  "playback0 = \<lparr>currentItem = None, currentBeginTime = 0, queue = [], lastItemId = 0, startDelay = 1000\<rparr>"

definition host0 :: host where
  "host0 =
     \<lparr>opts = options0, bans = Map.empty, ipToNetworkId = [], networkIdToIp = [], lastUserId = 0,
      tokenToUser = Map.empty, userToToken = Map.empty, userToIp = Map.empty, connections = [],
      userToConnections = Map.empty, zone_users = [], objects = (\<lambda>u. default_user),
      zone_echoes = [], playback = playback0, eventMode = False, skips = [], waiting = [],
      bound = [], timers = [], tickets = [], clock = 0, outbox = []\<rparr>"

definition mediaA :: Media where
  "mediaA = \<lparr>source = ''youtube:a'', title = ''A'', duration = 60000, hasGetStatus = True\<rparr>"

definition mediaB :: Media where
  "mediaB = \<lparr>source = ''youtube:b'', title = ''B'', duration = 90000, hasGetStatus = True\<rparr>"

definition mediaC :: Media where
  "mediaC = \<lparr>source = ''youtube:c'', title = ''C'', duration = 30000, hasGetStatus = False\<rparr>"

definition itemA :: QueueItem where
  "itemA = \<lparr>itemId = 1, media = mediaA,
            info = \<lparr>info_userId = ''1'', info_ip = Some ''10.0.0.1'', banger = False\<rparr>\<rparr>"

definition itemB :: QueueItem where
  "itemB = \<lparr>itemId = 2, media = mediaB,
            info = \<lparr>info_userId = ''2'', info_ip = Some ''10.0.0.2'', banger = False\<rparr>\<rparr>"

text \<open>The admin command \<^verbatim>\<open>mode\<close> (the same text in both revisions):
  \<^verbatim>\<open>eventMode = mode === 'event'\<close> and a status broadcast.\<close>

definition command_mode :: "string \<Rightarrow> host \<Rightarrow> host" where
  "command_mode mode s =
     status (''event mode: '' @ (if mode = ''event'' then ''true'' else ''false''))
       (s\<lparr>eventMode := (mode = ''event'')\<rparr>)"

subsection \<open>The older revision\<close>

text \<open>Ann and Bob join with a \<^verbatim>\<open>join\<close> message, Ann queues the media A, which starts
  playing, and Bob queues B, which stays pending.\<close>

definition join_of :: "string \<Rightarrow> string option \<Rightarrow> JoinMessage" where
  "join_of n t = \<lparr>join_name = n, join_token = t, join_password = None\<rparr>"

definition zone1 :: host where
  "zone1 = snd (on_join 1 (join_of ''ann'' None) ''tokenA'' (waitJoin 1 ''10.0.0.1'' host0))"

definition zone2 :: host where
  "zone2 = snd (on_join 2 (join_of ''bob'' None) ''tokenB'' (waitJoin 2 ''10.0.0.2'' zone1))"

definition playingA :: host where
  "playingA = snd (tryQueueMedia_v0 ''1'' mediaA False zone2)"

definition queuedB :: host where
  "queuedB = snd (tryQueueMedia_v0 ''2'' mediaB False playingA)"

text \<open>The same host with a join password configured.\<close>

definition locked :: host where
  "locked = host0\<lparr>opts := options0\<lparr>joinPassword := Some ''sesame''\<rparr>\<rparr>"


text \<open>Ann's socket drops (close code 1006), she comes back on a second socket with her token,
  that socket drops too, and then the timer of the first drop fires.\<close>

definition dropped :: host where
  "dropped = on_close 1 1006 zone1"

definition rebound :: host where
  "rebound = snd (on_join 2 (join_of ''ann'' (Some ''tokenA'')) ''tokenC'' (waitJoin 2 ''10.0.0.1'' dropped))"

definition dropped_again :: host where
  "dropped_again = on_close 2 1006 rebound"

definition expired :: host where
  "expired = on_timer ''1'' dropped_again"

text \<open>While A plays with nothing pending, Ann votes to skip it, then Bob does.\<close>

definition one_vote :: host where
  "one_vote = voteSkip_v0 ''youtube:a'' ''1'' playingA"

definition two_votes :: host where
  "two_votes = voteSkip_v0 ''youtube:a'' ''2'' one_vote"

text \<open>An admin switches event mode on while A plays and B is pending; in \<open>dj_night\<close> Ann has
  been given the tag \<^verbatim>\<open>dj\<close> (what the command \<^verbatim>\<open>dj-add\<close> pushes on her tags).\<close>

definition event_night :: host where
  "event_night = command_mode ''event'' queuedB"

definition dj_night :: host where
  "dj_night = event_night\<lparr>objects := (objects event_night)(''1'' := (objects event_night ''1'')\<lparr>tags := [''dj'']\<rparr>)\<rparr>"

text \<open>Bob leaves cleanly (close code 1000) while B is still pending.\<close>

definition bob_gone :: host where
  "bob_gone = on_close 2 1000 queuedB"

subsection \<open>The newer revision\<close>

text \<open>Ann and Bob each get a ticket and open a socket with it, Ann queues A, which starts
  playing, and Bob queues B, which stays pending.\<close>

definition room1 :: host where
  "room1 = snd (ws_zone_ticket 1 ''10.0.0.1'' ''ticketA'' ''tokenA''
                  (snd (zone_join ''10.0.0.1'' ''ann'' ''QUJD'' ''ticketA'' host0)))"

definition room2 :: host where
  "room2 = snd (ws_zone_ticket 2 ''10.0.0.2'' ''ticketB'' ''tokenB''
                  (snd (zone_join ''10.0.0.2'' ''bob'' ''REVG'' ''ticketB'' room1)))"

definition room_playing :: host where
  "room_playing = snd (tryQueueMedia_v1 ''1'' mediaA False room2)"

definition room_queued :: host where
  "room_queued = snd (tryQueueMedia_v1 ''2'' mediaB False room_playing)"

text \<open>While A plays with nothing pending, Ann votes to skip it, then Bob does.\<close>

definition room_one_vote :: host where
  "room_one_vote = voteSkip_v1 1 ''1'' room_playing"

definition room_two_votes :: host where
  "room_two_votes = voteSkip_v1 1 ''2'' room_one_vote"

text \<open>An admin switches event mode on; in \<open>room_dj\<close> Ann has been given the tag \<^verbatim>\<open>dj\<close>.\<close>

definition room_event :: host where
  "room_event = command_mode ''event'' room_queued"

definition room_dj :: host where
  "room_dj = room_event\<lparr>objects := (objects room_event)(''1'' := (objects room_event ''1'')\<lparr>tags := [''dj'']\<rparr>)\<rparr>"




text \<open>A probe that reports the media B as failed.\<close>

definition probeB :: "Media \<Rightarrow> MediaStatus" where
  "probeB m = (if source m = ''youtube:b'' then MediaFailed else Available)"

section \<open>Removing a user\<close>

lemma revokeUserToken_eq:
  "revokeUserToken user s =
     s\<lparr>tokenToUser :=
         (case userToToken s user of
            None \<Rightarrow> tokenToUser s
          | Some token \<Rightarrow> if token \<noteq> [] then (tokenToUser s)(token := None) else tokenToUser s),
       userToToken := (userToToken s)(user := None)\<rparr>"
  by (simp add: revokeUserToken_def Let_def split: option.split)

lemma killUser_eq:
  "killUser user s =
     s\<lparr>outbox := outbox s @ (if user \<in> set (zone_users s)
                   then [SendAll (Leave user) (map snd (connections s))] else []),
       zone_users := removeAll user (zone_users s),
       connections := AList.delete user (connections s),
       userToConnections := (userToConnections s)(user := None),
       tokenToUser :=
         (case userToToken s user of
            None \<Rightarrow> tokenToUser s
          | Some token \<Rightarrow> if token \<noteq> [] then (tokenToUser s)(token := None) else tokenToUser s),
       userToToken := (userToToken s)(user := None)\<rparr>"
  by (simp add: killUser_def revokeUserToken_eq sendAll_def Let_def cong: option.case_cong if_cong)

text \<open>
  C10.  Removing a user twice is the same as removing it once: \<^verbatim>\<open>killUser\<close> sends the leave
  broadcast only when the user is still in the registry, so the second call sends nothing,
  and the registry, the connection table and both token tables stay as the first call left
  them (the whole state is equal).  The first call sends one leave broadcast when the user
  is in the registry and none otherwise, and leaves the user out of the registry, the
  connection table and the token table.
\<close>

theorem killUser_idempotent:
  "killUser user (killUser user s) = killUser user s
   \<and> outbox (killUser user (killUser user s)) = outbox (killUser user s)
   \<and> outbox (killUser user s) =
       outbox s @ (if user \<in> set (zone_users s)
                   then [SendAll (Leave user) (map snd (connections s))] else [])
   \<and> user \<notin> set (zone_users (killUser user s))
   \<and> map_of (connections (killUser user s)) user = None
   \<and> userToConnections (killUser user s) user = None
   \<and> userToToken (killUser user s) user = None
   \<and> tokenToUser (killUser user s) =
       (case userToToken s user of
          None \<Rightarrow> tokenToUser s
        | Some token \<Rightarrow> if token \<noteq> [] then (tokenToUser s)(token := None) else tokenToUser s)"
proof -
  have twice: "killUser user (killUser user s) = killUser user s"
    by (simp add: killUser_eq AList.delete_idem cong: option.case_cong if_cong split: option.split)
  have rest: "map_of (connections (killUser user s)) user = None"
    by (simp add: killUser_eq AList.delete_conv')
  show ?thesis
    using twice rest by (simp add: killUser_eq cong: option.case_cong if_cong)
qed

section \<open>Joining: what the listener does\<close>

lemma sendCoreState_bound:
  "map_of (connections s) user = Some c \<Longrightarrow>
   sendCoreState user s = (None, s\<lparr>outbox := outbox s @ map (\<lambda>m. Send m c) (core_messages s)\<rparr>)"
  by (simp add: sendCoreState_def sendCurrent_def sendOnly_def and_then_def core_messages_def
        currentTime_def split: option.split)

lemma bind_user_eq:
  "bind_user ids user token c a s =
     s\<lparr>tokenToUser := (tokenToUser s)(token \<mapsto> user),
       userToToken := (userToToken s)(user \<mapsto> token),
       userToConnections := (userToConnections s)(user \<mapsto>
          set_add c (case userToConnections s user of None \<Rightarrow> [] | Some cs \<Rightarrow> cs)),
       userToIp := (userToIp s)(user \<mapsto> a),
       ipToNetworkId := (if ids then ipToNetworkId (getNetworkIdFromIp a s) else ipToNetworkId s),
       networkIdToIp := (if ids then networkIdToIp (getNetworkIdFromIp a s) else networkIdToIp s),
       connections := AList.update user c (connections s),
       bound := AList.update c user (bound s)\<rparr>"
  by (simp add: bind_user_def addUserToken_def addConnectionToUser_def Let_def
        getNetworkIdFromIp_def split: option.split)

text \<open>The sends that end the listener, once the user's channel is in the connection table.\<close>

lemma join_sends:
  assumes "map_of (connections s2) user = Some c"
  shows "and_then (sendCoreState user s2) (\<lambda>s3.
           and_then (sendOnly (Assign user token) user s3) (\<lambda>s4. sendOtherState user s4)) =
         (None, s2\<lparr>outbox := outbox s2 @ map (\<lambda>m. Send m c)
               (core_messages s2 @ [Assign user token, EchoesAdded (map snd (zone_echoes s2))])\<rparr>)"
  by (simp add: sendCoreState_bound [OF assms] and_then_def sendOnly_def sendOtherState_def assms)

lemma join_sends_new:
  assumes "map_of (connections s2) user = Some c"
  shows "and_then (sendCoreState user s2) (\<lambda>s3.
           and_then (sendOnly (Assign user token) user s3) (\<lambda>s4.
             sendOtherState user (sendAll (UserMsg user (objects s4 user)) s4))) =
         (None, s2\<lparr>outbox := outbox s2 @ map (\<lambda>m. Send m c) (core_messages s2 @ [Assign user token])
               @ [SendAll (UserMsg user (objects s2 user)) (map snd (connections s2)),
                  Send (EchoesAdded (map snd (zone_echoes s2))) c]\<rparr>)"
  by (simp add: sendCoreState_bound [OF assms] and_then_def sendOnly_def sendOtherState_def
        sendAll_def assms)

lemma bind_user_connected: "map_of (connections (bind_user ids user token c a s)) user = Some c"
  by (simp add: bind_user_eq AList.update_conv')

lemma join_resume_eq:
  assumes "resumed msg s = Some user"
  shows "\<exists>token. join_token msg = Some token \<and> token \<noteq> [] \<and> tokenToUser s token = Some user \<and>
     join_listener c a msg fresh s =
       (None,
        (bind_user True user token c a (set_name user (join_name msg) s))
        \<lparr>outbox := outbox s
           @ map (\<lambda>m. Send m c)
               (core_messages (set_name user (join_name msg) s)
                @ [Assign user token, EchoesAdded (map snd (zone_echoes s))])\<rparr>)"
proof -
  from assms obtain token where t: "join_token msg = Some token" "token \<noteq> []" "tokenToUser s token = Some user"
    by (auto simp add: resumed_def split: option.splits if_splits)
  define s2 where "s2 = bind_user True user token c a (set_name user (join_name msg) s)"
  have c2: "map_of (connections s2) user = Some c"
    by (simp add: s2_def bind_user_connected)
  have o2: "outbox s2 = outbox s" "zone_echoes s2 = zone_echoes s"
    by (simp_all add: s2_def set_name_def bind_user_eq)
  have cm: "core_messages s2 = core_messages (set_name user (join_name msg) s)"
    by (simp add: core_messages_def s2_def bind_user_eq)
  have "join_listener c a msg fresh s =
          and_then (sendCoreState user s2) (\<lambda>s3.
          and_then (sendOnly (Assign user token) user s3) (\<lambda>s4. sendOtherState user s4))"
    using assms t by (simp add: join_listener_def authorised_def Let_def s2_def)
  then show ?thesis using t by (simp add: join_sends [OF c2] o2 cm) (simp add: s2_def)
qed

lemma join_new_eq:
  assumes "resumed msg s = None" "authorised msg s"
  shows "join_listener c a msg fresh s =
       (let user = show_nat (lastUserId s + 1);
            s1 = set_name user (join_name msg) (getUser user (s\<lparr>lastUserId := lastUserId s + 1\<rparr>));
            s2 = bind_user True user fresh c a s1
        in (None,
            s2\<lparr>outbox := outbox s @ map (\<lambda>m. Send m c) (core_messages s1 @ [Assign user fresh])
                 @ [SendAll (UserMsg user (objects s1 user)) (map snd (connections s2)),
                    Send (EchoesAdded (map snd (zone_echoes s))) c]\<rparr>))"
proof -
  define user where "user = show_nat (lastUserId s + 1)"
  define s1 where "s1 = set_name user (join_name msg) (getUser user (s\<lparr>lastUserId := lastUserId s + 1\<rparr>))"
  define s2 where "s2 = bind_user True user fresh c a s1"
  have c2: "map_of (connections s2) user = Some c"
    by (simp add: s2_def bind_user_connected)
  have o1: "outbox s1 = outbox s" "zone_echoes s1 = zone_echoes s"
    by (simp_all add: s1_def set_name_def getUser_def)
  have o2: "outbox s2 = outbox s" "zone_echoes s2 = zone_echoes s" "objects s2 = objects s1"
    by (simp_all add: s2_def bind_user_eq o1)
  have cm: "core_messages s2 = core_messages s1"
    by (simp add: core_messages_def s2_def bind_user_eq)
  have "join_listener c a msg fresh s =
          and_then (sendCoreState user s2) (\<lambda>s3.
          and_then (sendOnly (Assign user fresh) user s3) (\<lambda>s4.
            sendOtherState user (sendAll (UserMsg user (objects s4 user)) s4)))"
    using assms by (simp add: join_listener_def Let_def s2_def s1_def user_def)
  then have "join_listener c a msg fresh s =
       (None, s2\<lparr>outbox := outbox s @ map (\<lambda>m. Send m c) (core_messages s1 @ [Assign user fresh])
                 @ [SendAll (UserMsg user (objects s1 user)) (map snd (connections s2)),
                    Send (EchoesAdded (map snd (zone_echoes s))) c]\<rparr>)"
    by (simp add: join_sends_new [OF c2] o2 cm)
  then show ?thesis
    by (simp add: Let_def s2_def s1_def user_def)
qed


lemma show_nat_small [simp]:
  "show_nat 0 = ''0''" "show_nat (Suc 0) = ''1''" "show_nat 2 = ''2''" "show_nat 3 = ''3''"
  by (simp_all add: show_nat.simps digit_def)

lemma authorised_host0 [simp]: "joinPassword (opts s) = None \<Longrightarrow> authorised msg s"
  by (simp add: authorised_def)

lemma zone1_eq:
  "zone1 =
     host0\<lparr>ipToNetworkId := [(''10.0.0.1'', ''0'')], networkIdToIp := [(''0'', ''10.0.0.1'')],
       lastUserId := 1,
       tokenToUser := [''tokenA'' \<mapsto> ''1''], userToToken := [''1'' \<mapsto> ''tokenA''],
       userToIp := [''1'' \<mapsto> ''10.0.0.1''], connections := [(''1'', 1)],
       userToConnections := [''1'' \<mapsto> [1]], zone_users := [''1''],
       objects := (\<lambda>u. default_user)(''1'' := default_user\<lparr>name := Some ''ann''\<rparr>),
       bound := [(1, ''1'')],
       outbox := [Send (Users [(''1'', default_user\<lparr>name := Some ''ann''\<rparr>)]) 1, Send (QueueMsg []) 1,
                  Send (Play None) 1, Send (Assign ''1'' ''tokenA'') 1,
                  SendAll (UserMsg ''1'' (default_user\<lparr>name := Some ''ann''\<rparr>)) [1],
                  Send (EchoesAdded []) 1]\<rparr>"
proof -
  have w: "waitJoin 1 ''10.0.0.1'' host0 = host0\<lparr>waiting := [(1, ''10.0.0.1'')]\<rparr>"
    by (simp add: waitJoin_def host0_def)
  have r: "resumed (join_of ''ann'' None) (host0\<lparr>waiting := []\<rparr>) = None"
    by (simp add: resumed_def join_of_def)
  have a: "authorised (join_of ''ann'' None) (host0\<lparr>waiting := []\<rparr>)"
    by (simp add: host0_def options0_def)
  show ?thesis
    unfolding zone1_def w
    by (simp add: on_join_def join_new_eq [OF r a])
       (simp add: host0_def join_of_def set_name_def getUser_def bind_user_eq getNetworkIdFromIp_def
          core_messages_def set_add_def playback0_def Let_def)
qed

lemma show_nat_two [simp]: "show_nat (Suc (Suc 0)) = ''2''"
  using show_nat_small(3) by (simp add: numeral_2_eq_2)

lemma join_resume_objects:
  assumes "resumed msg s = Some user"
  shows "objects (snd (join_listener c a msg fresh s)) =
           (objects s)(user := (objects s user)\<lparr>name := Some (join_name msg)\<rparr>)"
proof -
  from join_resume_eq [OF assms, of c a fresh]
  obtain token where eq: "join_listener c a msg fresh s =
       (None,
        (bind_user True user token c a (set_name user (join_name msg) s))
        \<lparr>outbox := outbox s
           @ map (\<lambda>m. Send m c)
               (core_messages (set_name user (join_name msg) s)
                @ [Assign user token, EchoesAdded (map snd (zone_echoes s))])\<rparr>)"
    by blast
  show ?thesis
    by (simp add: eq bind_user_eq set_name_def)
qed

text \<open>
  C3 (as amended).  A join message whose token resolves to a user binds the new socket to
  that user, whatever the password: no user id is allocated, the registry and the playback
  state stay as they are, the user's object keeps its avatar, position, emotes and tags and
  takes the name of the join message, and the only messages sent go to the joining channel
  (the core state, \<^verbatim>\<open>assign\<close> with the same id and token, the echoes); no broadcast is sent.
  When the token does not resolve and the join is authorised, the next user id is
  allocated and the new user is broadcast to every channel; when it is not authorised, the
  socket gets \<^verbatim>\<open>reject\<close> and is closed with code 4000.
\<close>

theorem join_with_token_resumes_user:
  "(resumed msg s = Some user \<longrightarrow>
      (let s' = snd (join_listener c a msg fresh s) in
       fst (join_listener c a msg fresh s) = None
       \<and> lastUserId s' = lastUserId s
       \<and> zone_users s' = zone_users s
       \<and> objects s' = (objects s)(user := (objects s user)\<lparr>name := Some (join_name msg)\<rparr>)
       \<and> playback s' = playback s
       \<and> map_of (connections s') user = Some c
       \<and> map_of (bound s') c = Some user
       \<and> (\<exists>token. join_token msg = Some token \<and> tokenToUser s token = Some user
             \<and> tokenToUser s' = tokenToUser s \<and> userToToken s' user = Some token
             \<and> outbox s' = outbox s @ map (\<lambda>m. Send m c)
                   (core_messages (set_name user (join_name msg) s)
                    @ [Assign user token, EchoesAdded (map snd (zone_echoes s))]))))
   \<and> (resumed msg s = None \<and> authorised msg s \<longrightarrow>
      (let s' = snd (join_listener c a msg fresh s); user' = show_nat (lastUserId s + 1) in
       fst (join_listener c a msg fresh s) = None
       \<and> lastUserId s' = lastUserId s + 1
       \<and> user' \<in> set (zone_users s')
       \<and> map_of (connections s') user' = Some c
       \<and> tokenToUser s' fresh = Some user'
       \<and> SendAll (UserMsg user' (objects s' user')) (map snd (connections s')) \<in> set (outbox s')))
   \<and> (\<not> authorised msg s \<longrightarrow>
        join_listener c a msg fresh s =
          (None, s\<lparr>outbox := outbox s @ [Send (Reject ''rejected: password required'') c,
                                          CloseSocket c 4000]\<rparr>))"
proof (intro conjI impI)
  assume r: "resumed msg s = Some user"
  from join_resume_eq [OF r, of c a fresh]
  obtain token where t: "join_token msg = Some token" "tokenToUser s token = Some user"
    and eq: "join_listener c a msg fresh s =
       (None,
        (bind_user True user token c a (set_name user (join_name msg) s))
        \<lparr>outbox := outbox s
           @ map (\<lambda>m. Send m c)
               (core_messages (set_name user (join_name msg) s)
                @ [Assign user token, EchoesAdded (map snd (zone_echoes s))])\<rparr>)"
    by blast
  have tk: "(tokenToUser s)(token \<mapsto> user) = tokenToUser s"
    using t(2) by (simp add: fun_upd_idem_iff)
  show "let s' = snd (join_listener c a msg fresh s) in
       fst (join_listener c a msg fresh s) = None
       \<and> lastUserId s' = lastUserId s
       \<and> zone_users s' = zone_users s
       \<and> objects s' = (objects s)(user := (objects s user)\<lparr>name := Some (join_name msg)\<rparr>)
       \<and> playback s' = playback s
       \<and> map_of (connections s') user = Some c
       \<and> map_of (bound s') c = Some user
       \<and> (\<exists>token. join_token msg = Some token \<and> tokenToUser s token = Some user
             \<and> tokenToUser s' = tokenToUser s \<and> userToToken s' user = Some token
             \<and> outbox s' = outbox s @ map (\<lambda>m. Send m c)
                   (core_messages (set_name user (join_name msg) s)
                    @ [Assign user token, EchoesAdded (map snd (zone_echoes s))]))"
    using t tk by (simp add: eq Let_def bind_user_eq set_name_def AList.update_conv')
next
  assume n: "resumed msg s = None \<and> authorised msg s"
  then have r: "resumed msg s = None" and a: "authorised msg s" by simp_all
  show "let s' = snd (join_listener c a msg fresh s); user' = show_nat (lastUserId s + 1) in
       fst (join_listener c a msg fresh s) = None
       \<and> lastUserId s' = lastUserId s + 1
       \<and> user' \<in> set (zone_users s')
       \<and> map_of (connections s') user' = Some c
       \<and> tokenToUser s' fresh = Some user'
       \<and> SendAll (UserMsg user' (objects s' user')) (map snd (connections s')) \<in> set (outbox s')"
    by (simp add: join_new_eq [OF r a] Let_def bind_user_eq set_name_def getUser_def AList.update_conv')
next
  assume "\<not> authorised msg s"
  then show "join_listener c a msg fresh s =
          (None, s\<lparr>outbox := outbox s @ [Send (Reject ''rejected: password required'') c,
                                          CloseSocket c 4000]\<rparr>)"
    by (simp add: join_listener_def)
qed


lemma zone1_resume: "resumed (join_of ''eve'' (Some ''tokenA'')) zone1 = Some ''1''"
  by (simp add: resumed_def join_of_def zone1_eq)

theorem join_with_token_resumes_user_witness:
  "resumed (join_of ''eve'' (Some ''tokenA'')) zone1 = Some ''1''
   \<and> lastUserId (snd (join_listener 2 ''10.0.0.7'' (join_of ''eve'' (Some ''tokenA'')) ''tokenC'' zone1)) = 1
   \<and> zone_users (snd (join_listener 2 ''10.0.0.7'' (join_of ''eve'' (Some ''tokenA'')) ''tokenC'' zone1)) = [''1'']
   \<and> map_of (connections (snd (join_listener 2 ''10.0.0.7'' (join_of ''eve'' (Some ''tokenA'')) ''tokenC'' zone1))) ''1'' = Some 2
   \<and> resumed (join_of ''bob'' None) zone1 = None
   \<and> authorised (join_of ''bob'' None) zone1
   \<and> lastUserId (snd (join_listener 2 ''10.0.0.2'' (join_of ''bob'' None) ''tokenB'' zone1)) = 2
   \<and> tokenToUser (snd (join_listener 2 ''10.0.0.2'' (join_of ''bob'' None) ''tokenB'' zone1)) ''tokenB'' = Some ''2''
   \<and> \<not> authorised (join_of ''bob'' None) locked
   \<and> join_listener 2 ''10.0.0.2'' (join_of ''bob'' None) ''tokenB'' locked =
       (None, locked\<lparr>outbox := [Send (Reject ''rejected: password required'') 2, CloseSocket 2 4000]\<rparr>)"
proof -
  have r2: "resumed (join_of ''bob'' None) zone1 = None"
    by (simp add: resumed_def join_of_def)
  have a2: "authorised (join_of ''bob'' None) zone1"
    by (simp add: zone1_eq host0_def options0_def)
  have a3: "\<not> authorised (join_of ''bob'' None) locked"
    by (simp add: authorised_def resumed_def join_of_def locked_def options0_def)
  have l1: "lastUserId zone1 = 1" "zone_users zone1 = [''1'']"
    by (simp_all add: zone1_eq)
  have o3: "outbox locked = []"
    by (simp add: locked_def host0_def)
  have e1:
    "lastUserId (snd (join_listener 2 ''10.0.0.7'' (join_of ''eve'' (Some ''tokenA'')) ''tokenC'' zone1)) = lastUserId zone1"
    "zone_users (snd (join_listener 2 ''10.0.0.7'' (join_of ''eve'' (Some ''tokenA'')) ''tokenC'' zone1)) = zone_users zone1"
    "map_of (connections (snd (join_listener 2 ''10.0.0.7'' (join_of ''eve'' (Some ''tokenA'')) ''tokenC'' zone1))) ''1'' = Some 2"
    using join_with_token_resumes_user [of "join_of ''eve'' (Some ''tokenA'')" zone1 "''1''" 2 "''10.0.0.7''" "''tokenC''"]
      zone1_resume
    by (simp_all add: Let_def)
  have e2:
    "lastUserId (snd (join_listener 2 ''10.0.0.2'' (join_of ''bob'' None) ''tokenB'' zone1)) = lastUserId zone1 + 1"
    "tokenToUser (snd (join_listener 2 ''10.0.0.2'' (join_of ''bob'' None) ''tokenB'' zone1)) ''tokenB''
       = Some (show_nat (lastUserId zone1 + 1))"
    using join_with_token_resumes_user [of "join_of ''bob'' None" zone1 "''1''" 2 "''10.0.0.2''" "''tokenB''"]
      r2 a2
    by (simp_all add: Let_def)
  have e3: "join_listener 2 ''10.0.0.2'' (join_of ''bob'' None) ''tokenB'' locked =
       (None, locked\<lparr>outbox := outbox locked @ [Send (Reject ''rejected: password required'') 2, CloseSocket 2 4000]\<rparr>)"
    using join_with_token_resumes_user [of "join_of ''bob'' None" locked "''1''" 2 "''10.0.0.2''" "''tokenB''"]
      a3
    by simp
  show ?thesis
    using zone1_resume r2 a2 a3 e1 e2 e3 by (simp add: l1 o3)
qed

text \<open>Against C3 as stated ("keeps the same user id and state"): Ann's user is resumed with a
  join message that names it Eve, and the name of the user object changes.\<close>

theorem join_with_token_renames_counterexample:
  "resumed (join_of ''eve'' (Some ''tokenA'')) zone1 = Some ''1''
   \<and> name (objects zone1 ''1'') = Some ''ann''
   \<and> name (objects (snd (join_listener 2 ''10.0.0.7'' (join_of ''eve'' (Some ''tokenA'')) ''tokenC'' zone1)) ''1'')
       = Some ''eve''
   \<and> objects (snd (join_listener 2 ''10.0.0.7'' (join_of ''eve'' (Some ''tokenA'')) ''tokenC'' zone1)) ''1''
       \<noteq> objects zone1 ''1''"
proof -
  have n: "name (objects zone1 ''1'') = Some ''ann''"
    by (simp add: zone1_eq)
  have m: "join_name (join_of ''eve'' (Some ''tokenA'')) = ''eve''"
    by (simp add: join_of_def)
  have e: "name (objects (snd (join_listener 2 ''10.0.0.7'' (join_of ''eve'' (Some ''tokenA'')) ''tokenC'' zone1)) ''1'')
       = Some ''eve''"
    by (simp add: join_resume_objects [OF zone1_resume] m)
  have d: "objects (snd (join_listener 2 ''10.0.0.7'' (join_of ''eve'' (Some ''tokenA'')) ''tokenC'' zone1)) ''1''
       \<noteq> objects zone1 ''1''"
  proof
    assume "objects (snd (join_listener 2 ''10.0.0.7'' (join_of ''eve'' (Some ''tokenA'')) ''tokenC'' zone1)) ''1''
       = objects zone1 ''1''"
    then have "Some ''eve'' = Some ''ann''"
      using e n by simp
    then show False by simp
  qed
  show ?thesis
    using zone1_resume n e d by simp
qed

section \<open>Bans\<close>



section \<open>Closing sockets\<close>

lemma removeConnectionFromUser_eq:
  "removeConnectionFromUser user c s =
     s\<lparr>userToConnections := (case userToConnections s user of
                                None \<Rightarrow> userToConnections s
                              | Some cs \<Rightarrow> (userToConnections s)(user \<mapsto> removeAll c cs))\<rparr>"
  by (simp add: removeConnectionFromUser_def split: option.split)

lemma on_close_clean:
  assumes "map_of (bound s) c = Some user" "code = 1000 \<or> code = 1001"
  shows "on_close c code s =
           killUser user (removeConnectionFromUser user c (s\<lparr>bound := AList.delete c (bound s)\<rparr>))"
  using assms by (auto simp add: on_close_def close_listener_def Let_def)

lemma on_close_unclean:
  assumes "map_of (bound s) c = Some user" "code \<noteq> 1000" "code \<noteq> 1001"
  shows "on_close c code s =
           (removeConnectionFromUser user c (s\<lparr>bound := AList.delete c (bound s)\<rparr>))
           \<lparr>timers := timers s @ [user]\<rparr>"
  using assms by (simp add: on_close_def close_listener_def Let_def removeConnectionFromUser_eq)

lemma on_timer_eq:
  assumes "user \<in> set (timers s)"
  shows "on_timer user s =
           (if isUserConnectionless user s then killUser user (s\<lparr>timers := remove1 user (timers s)\<rparr>)
            else s\<lparr>timers := remove1 user (timers s)\<rparr>)"
  using assms by (simp add: on_timer_def timeout_callback_def isUserConnectionless_def)

lemma bound_not_connectionless: "\<not> isUserConnectionless user (bind_user ids user token c a s)"
  by (auto simp add: isUserConnectionless_def bind_user_eq set_add_def split: option.splits)

text \<open>
  C2 (as amended).  When a socket bound to a user closes with code 1000 or 1001, the user
  is removed at once: the leave broadcast is sent if the user is still in the registry, the
  token is revoked, and the user is dropped from the registry and the connection table.
  With any other code the channel is taken from the user's channels and a timer is started,
  and nothing else changes.  When the timer fires, the user is removed exactly if it has no
  channel at that moment; a user that a channel has just been bound to has one.
\<close>

theorem close_removes_or_starts_timer:
  "(map_of (bound s) c = Some user \<and> (code = 1000 \<or> code = 1001) \<longrightarrow>
      on_close c code s =
        killUser user (removeConnectionFromUser user c (s\<lparr>bound := AList.delete c (bound s)\<rparr>))
      \<and> user \<notin> set (zone_users (on_close c code s))
      \<and> map_of (connections (on_close c code s)) user = None
      \<and> userToConnections (on_close c code s) user = None
      \<and> userToToken (on_close c code s) user = None
      \<and> tokenToUser (on_close c code s) =
          (case userToToken s user of
             None \<Rightarrow> tokenToUser s
           | Some token \<Rightarrow> if token \<noteq> [] then (tokenToUser s)(token := None) else tokenToUser s)
      \<and> outbox (on_close c code s) =
          outbox s @ (if user \<in> set (zone_users s)
                      then [SendAll (Leave user) (map snd (connections s))] else [])
      \<and> timers (on_close c code s) = timers s)
   \<and> (map_of (bound s) c = Some user \<and> code \<noteq> 1000 \<and> code \<noteq> 1001 \<longrightarrow>
      on_close c code s =
        (removeConnectionFromUser user c (s\<lparr>bound := AList.delete c (bound s)\<rparr>))
        \<lparr>timers := timers s @ [user]\<rparr>
      \<and> zone_users (on_close c code s) = zone_users s
      \<and> connections (on_close c code s) = connections s
      \<and> tokenToUser (on_close c code s) = tokenToUser s
      \<and> userToToken (on_close c code s) = userToToken s
      \<and> outbox (on_close c code s) = outbox s)
   \<and> (user \<in> set (timers s) \<longrightarrow>
      on_timer user s =
        (if userToConnections s user = None \<or> userToConnections s user = Some []
         then killUser user (s\<lparr>timers := remove1 user (timers s)\<rparr>)
         else s\<lparr>timers := remove1 user (timers s)\<rparr>))
   \<and> userToConnections (bind_user ids user token c a s) user \<noteq> None
   \<and> userToConnections (bind_user ids user token c a s) user \<noteq> Some []"
proof (intro conjI impI)
  assume h: "map_of (bound s) c = Some user \<and> (code = 1000 \<or> code = 1001)"
  then have eq: "on_close c code s =
        killUser user (removeConnectionFromUser user c (s\<lparr>bound := AList.delete c (bound s)\<rparr>))"
    by (simp add: on_close_clean)
  show "on_close c code s =
        killUser user (removeConnectionFromUser user c (s\<lparr>bound := AList.delete c (bound s)\<rparr>))"
    by (rule eq)
  show "user \<notin> set (zone_users (on_close c code s))"
    by (simp add: eq killUser_eq)
  show "map_of (connections (on_close c code s)) user = None"
    by (simp add: eq killUser_eq AList.delete_conv')
  show "userToConnections (on_close c code s) user = None"
    by (simp add: eq killUser_eq)
  show "userToToken (on_close c code s) user = None"
    by (simp add: eq killUser_eq)
  show "tokenToUser (on_close c code s) =
          (case userToToken s user of
             None \<Rightarrow> tokenToUser s
           | Some token \<Rightarrow> if token \<noteq> [] then (tokenToUser s)(token := None) else tokenToUser s)"
    by (simp add: eq killUser_eq removeConnectionFromUser_eq split: option.split)
  show "outbox (on_close c code s) =
          outbox s @ (if user \<in> set (zone_users s)
                      then [SendAll (Leave user) (map snd (connections s))] else [])"
    by (simp add: eq killUser_eq removeConnectionFromUser_eq)
  show "timers (on_close c code s) = timers s"
    by (simp add: eq killUser_eq removeConnectionFromUser_eq)
next
  assume h: "map_of (bound s) c = Some user \<and> code \<noteq> 1000 \<and> code \<noteq> 1001"
  then have eq: "on_close c code s =
        (removeConnectionFromUser user c (s\<lparr>bound := AList.delete c (bound s)\<rparr>))
        \<lparr>timers := timers s @ [user]\<rparr>"
    by (simp add: on_close_unclean)
  show "on_close c code s =
        (removeConnectionFromUser user c (s\<lparr>bound := AList.delete c (bound s)\<rparr>))
        \<lparr>timers := timers s @ [user]\<rparr>"
    by (rule eq)
  show "zone_users (on_close c code s) = zone_users s"
    "connections (on_close c code s) = connections s"
    "tokenToUser (on_close c code s) = tokenToUser s"
    "userToToken (on_close c code s) = userToToken s"
    "outbox (on_close c code s) = outbox s"
    by (simp_all add: eq removeConnectionFromUser_eq)
next
  assume "user \<in> set (timers s)"
  then show "on_timer user s =
        (if userToConnections s user = None \<or> userToConnections s user = Some []
         then killUser user (s\<lparr>timers := remove1 user (timers s)\<rparr>)
         else s\<lparr>timers := remove1 user (timers s)\<rparr>)"
    by (simp add: on_timer_eq isUserConnectionless_def split: option.split)
next
  show "userToConnections (bind_user ids user token c a s) user \<noteq> None"
    by (simp add: bind_user_eq)
  show "userToConnections (bind_user ids user token c a s) user \<noteq> Some []"
    by (auto simp add: bind_user_eq set_add_def split: option.splits)
qed


lemma join_resume_token:
  assumes "join_token msg = Some token" "token \<noteq> []" "tokenToUser s token = Some user"
  shows "join_listener c a msg fresh s =
       (None,
        (bind_user True user token c a (set_name user (join_name msg) s))
        \<lparr>outbox := outbox s
           @ map (\<lambda>m. Send m c)
               (core_messages (set_name user (join_name msg) s)
                @ [Assign user token, EchoesAdded (map snd (zone_echoes s))])\<rparr>)"
proof -
  have "resumed msg s = Some user"
    using assms by (simp add: resumed_def)
  from join_resume_eq [OF this, of c a fresh] assms(1) show ?thesis
    by auto
qed

lemma on_join_waitJoin:
  "bans s a = None \<Longrightarrow>
   on_join c msg fresh (waitJoin c a s) =
     join_listener c a msg fresh (s\<lparr>waiting := AList.delete c (AList.update c a (waiting s))\<rparr>)"
  by (simp add: on_join_def waitJoin_def AList.update_conv')

lemma dropped_facts:
  "userToConnections dropped ''1'' = Some []" "timers dropped = [''1'']"
  "zone_users dropped = [''1'']" "tokenToUser dropped ''tokenA'' = Some ''1''"
  "bans dropped ''10.0.0.1'' = None" "bound dropped = []"
proof -
  have b: "map_of (bound zone1) 1 = Some ''1''"
    by (simp add: zone1_eq)
  have eq: "dropped = (removeConnectionFromUser ''1'' 1 (zone1\<lparr>bound := AList.delete 1 (bound zone1)\<rparr>))
           \<lparr>timers := timers zone1 @ [''1'']\<rparr>"
    unfolding dropped_def by (rule on_close_unclean [OF b]) simp_all
  show "userToConnections dropped ''1'' = Some []" "timers dropped = [''1'']"
    "zone_users dropped = [''1'']" "tokenToUser dropped ''tokenA'' = Some ''1''"
    "bans dropped ''10.0.0.1'' = None" "bound dropped = []"
    unfolding eq by (simp_all add: removeConnectionFromUser_eq zone1_eq host0_def)
qed

lemma rebound_facts:
  "userToConnections rebound ''1'' = Some [2]" "timers rebound = [''1'']"
  "zone_users rebound = [''1'']" "bound rebound = [(2, ''1'')]"
proof -
  have t: "join_token (join_of ''ann'' (Some ''tokenA'')) = Some ''tokenA''"
    by (simp add: join_of_def)
  have k: "tokenToUser (dropped\<lparr>waiting := AList.delete 2 (AList.update 2 ''10.0.0.1'' (waiting dropped))\<rparr>) ''tokenA''
             = Some ''1''"
    by (simp add: dropped_facts)
  have eq: "rebound = snd (join_listener 2 ''10.0.0.1'' (join_of ''ann'' (Some ''tokenA'')) ''tokenC''
          (dropped\<lparr>waiting := AList.delete 2 (AList.update 2 ''10.0.0.1'' (waiting dropped))\<rparr>))"
    unfolding rebound_def by (simp add: on_join_waitJoin dropped_facts)
  show "userToConnections rebound ''1'' = Some [2]" "timers rebound = [''1'']"
    "zone_users rebound = [''1'']" "bound rebound = [(2, ''1'')]"
    unfolding eq
    by (simp_all add: join_resume_token [OF t _ k] bind_user_eq set_name_def set_add_def dropped_facts)
qed

lemma dropped_again_facts:
  "userToConnections dropped_again ''1'' = Some []" "timers dropped_again = [''1'', ''1'']"
  "zone_users dropped_again = [''1'']"
proof -
  have b: "map_of (bound rebound) 2 = Some ''1''"
    by (simp add: rebound_facts)
  have eq: "dropped_again = (removeConnectionFromUser ''1'' 2 (rebound\<lparr>bound := AList.delete 2 (bound rebound)\<rparr>))
           \<lparr>timers := timers rebound @ [''1'']\<rparr>"
    unfolding dropped_again_def by (rule on_close_unclean [OF b]) simp_all
  show "userToConnections dropped_again ''1'' = Some []" "timers dropped_again = [''1'', ''1'']"
    "zone_users dropped_again = [''1'']"
    unfolding eq by (simp_all add: removeConnectionFromUser_eq rebound_facts)
qed

theorem close_removes_or_starts_timer_witness:
  "map_of (bound zone1) 1 = Some ''1''
   \<and> ''1'' \<in> set (zone_users zone1)
   \<and> ''1'' \<notin> set (zone_users (on_close 1 1000 zone1))
   \<and> tokenToUser (on_close 1 1001 zone1) ''tokenA'' = None
   \<and> outbox (on_close 1 1000 zone1) = outbox zone1 @ [SendAll (Leave ''1'') [1]]
   \<and> zone_users (on_close 1 1006 zone1) = [''1'']
   \<and> timers (on_close 1 1006 zone1) = [''1'']
   \<and> ''1'' \<in> set (timers dropped)
   \<and> on_timer ''1'' dropped = killUser ''1'' (dropped\<lparr>timers := []\<rparr>)
   \<and> ''1'' \<in> set (timers rebound)
   \<and> on_timer ''1'' rebound = rebound\<lparr>timers := []\<rparr>"
proof -
  have b: "map_of (bound zone1) 1 = Some ''1''"
    by (simp add: zone1_eq)
  have z: "zone_users zone1 = [''1'']" "timers zone1 = []" "connections zone1 = [(''1'', 1)]"
    "userToToken zone1 ''1'' = Some ''tokenA''" "tokenToUser zone1 ''tokenA'' = Some ''1''"
    by (simp_all add: zone1_eq host0_def)
  note T = close_removes_or_starts_timer [where user = "''1''" and ids = True and token = "''tokenC''"
      and a = "''10.0.0.1''"]
  have c1: "''1'' \<notin> set (zone_users (on_close 1 1000 zone1))"
    "outbox (on_close 1 1000 zone1) = outbox zone1 @ [SendAll (Leave ''1'') [1]]"
    using T [of zone1 1 1000] b by (auto simp add: z)
  have c2: "tokenToUser (on_close 1 1001 zone1) ''tokenA'' = None"
    using T [of zone1 1 1001] b by (auto simp add: z)
  have c3: "zone_users (on_close 1 1006 zone1) = [''1'']" "timers (on_close 1 1006 zone1) = [''1'']"
    using T [of zone1 1 1006] b by (auto simp add: z)
  have c4: "on_timer ''1'' dropped = killUser ''1'' (dropped\<lparr>timers := []\<rparr>)"
    using T [of dropped 1 1006] by (auto simp add: dropped_facts)
  have c5: "on_timer ''1'' rebound = rebound\<lparr>timers := []\<rparr>"
    using T [of rebound 1 1006] by (auto simp add: rebound_facts)
  show ?thesis
    using b c1 c2 c3 c4 c5 by (simp add: z dropped_facts rebound_facts)
qed

text \<open>Against C2 as stated ("removed when the timer fires only if no channel has rebound to
  the user in the meantime"): after the first drop a second socket is bound to Ann with her
  token, it drops as well, and the timer of the first drop then removes her.\<close>

theorem rebound_then_removed_counterexample:
  "''1'' \<in> set (timers dropped)
   \<and> map_of (bound rebound) 2 = Some ''1''
   \<and> userToConnections rebound ''1'' = Some [2]
   \<and> ''1'' \<in> set (zone_users dropped_again)
   \<and> ''1'' \<in> set (timers dropped_again)
   \<and> ''1'' \<notin> set (zone_users expired)"
proof -
  have eq: "expired = killUser ''1'' (dropped_again\<lparr>timers := remove1 ''1'' (timers dropped_again)\<rparr>)"
    unfolding expired_def
    by (simp add: on_timer_eq isUserConnectionless_def dropped_again_facts)
  have "''1'' \<notin> set (zone_users expired)"
    unfolding eq by (simp add: killUser_eq)
  then show ?thesis
    by (simp add: dropped_facts rebound_facts dropped_again_facts)
qed

section \<open>The run of the older revision, state by state\<close>

lemma zone2_eq:
  "zone2 =
     zone1\<lparr>ipToNetworkId := [(''10.0.0.1'', ''0''), (''10.0.0.2'', ''1'')],
       networkIdToIp := [(''0'', ''10.0.0.1''), (''1'', ''10.0.0.2'')],
       lastUserId := 2,
       tokenToUser := [''tokenA'' \<mapsto> ''1'', ''tokenB'' \<mapsto> ''2''],
       userToToken := [''1'' \<mapsto> ''tokenA'', ''2'' \<mapsto> ''tokenB''],
       userToIp := [''1'' \<mapsto> ''10.0.0.1'', ''2'' \<mapsto> ''10.0.0.2''],
       connections := [(''1'', 1), (''2'', 2)],
       userToConnections := [''1'' \<mapsto> [1], ''2'' \<mapsto> [2]], zone_users := [''1'', ''2''],
       objects := (\<lambda>u. default_user)(''1'' := default_user\<lparr>name := Some ''ann''\<rparr>,
                                       ''2'' := default_user\<lparr>name := Some ''bob''\<rparr>),
       bound := [(1, ''1''), (2, ''2'')],
       outbox := outbox zone1 @
                 [Send (Users [(''1'', default_user\<lparr>name := Some ''ann''\<rparr>),
                               (''2'', default_user\<lparr>name := Some ''bob''\<rparr>)]) 2,
                  Send (QueueMsg []) 2, Send (Play None) 2, Send (Assign ''2'' ''tokenB'') 2,
                  SendAll (UserMsg ''2'' (default_user\<lparr>name := Some ''bob''\<rparr>)) [1, 2],
                  Send (EchoesAdded []) 2]\<rparr>"
proof -
  have w: "bans zone1 ''10.0.0.2'' = None"
    by (simp add: zone1_eq host0_def)
  have r: "resumed (join_of ''bob'' None)
             (zone1\<lparr>waiting := AList.delete 2 (AList.update 2 ''10.0.0.2'' (waiting zone1))\<rparr>) = None"
    by (simp add: resumed_def join_of_def)
  have a: "authorised (join_of ''bob'' None)
             (zone1\<lparr>waiting := AList.delete 2 (AList.update 2 ''10.0.0.2'' (waiting zone1))\<rparr>)"
    by (simp add: zone1_eq host0_def options0_def)
  show ?thesis
    unfolding zone2_def on_join_waitJoin [OF w]
    by (simp add: join_new_eq [OF r a])
       (simp add: zone1_eq host0_def join_of_def set_name_def getUser_def bind_user_eq
          getNetworkIdFromIp_def core_messages_def set_add_def playback0_def Let_def fun_upd_twist)
qed


section \<open>Queueing and skipping, as record updates\<close>

lemma queueMedia_eq:
  "queueMedia m i s =
     (if currentItem (playback s) = None
      then s\<lparr>playback := (playback s)\<lparr>lastItemId := lastItemId (playback s) + 1,
                  currentItem := Some \<lparr>itemId = lastItemId (playback s) + 1, media = m, info = i\<rparr>,
                  currentBeginTime := clock s + startDelay (playback s)\<rparr>,
             outbox := outbox s @
               [SendAll (QueueMsg [\<lparr>itemId = lastItemId (playback s) + 1, media = m, info = i\<rparr>])
                  (map snd (connections s)),
                SendAll (Play (Some (\<lparr>itemId = lastItemId (playback s) + 1, media = m, info = i\<rparr>,
                                     - startDelay (playback s))))
                  (map snd (connections s))],
             skips := []\<rparr>
      else s\<lparr>playback := (playback s)\<lparr>lastItemId := lastItemId (playback s) + 1,
                  queue := queue (playback s) @ [\<lparr>itemId = lastItemId (playback s) + 1, media = m, info = i\<rparr>]\<rparr>,
             outbox := outbox s @
               [SendAll (QueueMsg [\<lparr>itemId = lastItemId (playback s) + 1, media = m, info = i\<rparr>])
                  (map snd (connections s))]\<rparr>)"
  by (simp add: queueMedia_def Playback_queueMedia_def promote_def emit_all_def listeners_def
        sendAll_def currentTime_def Let_def)

lemma skip_eq:
  "skip message s =
     (case queue (playback s) of
        [] \<Rightarrow>
          s\<lparr>outbox := outbox s
               @ (case message of None \<Rightarrow> [] | Some m \<Rightarrow>
                    if m \<noteq> [] then [SendAll (Status m) (map snd (connections s))] else [])
               @ [SendAll (Play None) (map snd (connections s))],
            playback := (playback s)\<lparr>currentItem := None\<rparr>\<rparr>
      | item # rest \<Rightarrow>
          s\<lparr>outbox := outbox s
               @ (case message of None \<Rightarrow> [] | Some m \<Rightarrow>
                    if m \<noteq> [] then [SendAll (Status m) (map snd (connections s))] else [])
               @ [SendAll (Play (Some (item, - startDelay (playback s)))) (map snd (connections s))],
            playback := (playback s)\<lparr>queue := rest, currentItem := Some item,
                          currentBeginTime := clock s + startDelay (playback s)\<rparr>,
            skips := []\<rparr>)"
  by (simp add: skip_def Playback_skip_def promote_def emit_all_def listeners_def status_def
        sendAll_def currentTime_def Let_def split: option.split list.split)

lemma cast_vote_eq:
  "cast_vote cur user s =
     (if skip_target s \<le> int (length (set_add user (skips s)))
      then skip (Some (''voted to skip '' @ title (media cur))) (s\<lparr>skips := set_add user (skips s)\<rparr>)
      else s\<lparr>skips := set_add user (skips s),
             outbox := outbox s @ [SendAll (Status (show_nat (length (set_add user (skips s))) @ '' of ''
                          @ show_int (skip_target s) @ '' votes to skip'')) (map snd (connections s))]\<rparr>)"
  by (simp add: cast_vote_def skip_target_def status_def sendAll_def Let_def)

lemma playingA_eq:
  "playingA =
     zone2\<lparr>playback := playback0\<lparr>lastItemId := 1, currentItem := Some itemA, currentBeginTime := 1000\<rparr>,
       outbox := outbox zone2 @ [SendAll (QueueMsg [itemA]) [1, 2], SendAll (Play (Some (itemA, - 1000))) [1, 2]]\<rparr>"
  unfolding playingA_def
  by (simp add: tryQueueMedia_v0_def mediaEquals_def queueMedia_eq zone2_eq zone1_eq host0_def options0_def
        playback0_def itemA_def mediaA_def Let_def)

lemma queuedB_eq:
  "queuedB =
     playingA\<lparr>playback := playback0\<lparr>lastItemId := 2, currentItem := Some itemA, currentBeginTime := 1000,
                                     queue := [itemB]\<rparr>,
       outbox := outbox playingA @ [SendAll (QueueMsg [itemB]) [1, 2]]\<rparr>"
  unfolding queuedB_def
  by (simp add: tryQueueMedia_v0_def mediaEquals_def queueMedia_eq playingA_eq zone2_eq zone1_eq host0_def options0_def
        playback0_def itemB_def mediaB_def Let_def)

lemma playingA_facts:
  "currentItem (playback playingA) = Some itemA" "queue (playback playingA) = []"
  "zone_users playingA = [''1'', ''2'']" "skips playingA = []"
  "connections playingA = [(''1'', 1), (''2'', 2)]" "opts playingA = options0"
  "clock playingA = 0" "eventMode playingA = False"
  by (simp_all add: playingA_eq zone2_eq zone1_eq host0_def playback0_def)

lemma queuedB_facts:
  "currentItem (playback queuedB) = Some itemA" "queue (playback queuedB) = [itemB]"
  "currentBeginTime (playback queuedB) = 1000"
  "zone_users queuedB = [''1'', ''2'']" "skips queuedB = []"
  "connections queuedB = [(''1'', 1), (''2'', 2)]" "opts queuedB = options0"
  "clock queuedB = 0" "eventMode queuedB = False"
  "tags (objects queuedB ''1'') = []" "tags (objects queuedB ''2'') = []"
  "userToIp queuedB ''2'' = Some ''10.0.0.2''" "userToIp queuedB ''1'' = Some ''10.0.0.1''"
  by (simp_all add: queuedB_eq playingA_eq zone2_eq zone1_eq host0_def playback0_def default_user_def)

section \<open>The run of the newer revision, state by state\<close>

lemma ws_zone_ticket_eq:
  assumes "bans s a = None" "map_of (tickets s) ticket = Some (n, av)"
  shows "ws_zone_ticket c a ticket fresh s =
       (let user = show_nat (lastUserId s + 1);
            s0 = getUser user (s\<lparr>lastUserId := lastUserId s + 1\<rparr>);
            s1 = s0\<lparr>objects := (objects s0)(user := (objects s0 user)\<lparr>name := Some n, avatar := Some av\<rparr>)\<rparr>;
            s3 = bind_user False user fresh c a s1
        in (NoReply,
            s3\<lparr>outbox := outbox s @ SendAll (UserMsg user (objects s1 user)) (map snd (connections s))
                 # map (\<lambda>m. Send m c)
                     (core_messages s1 @ [Assign user fresh, EchoesAdded (map snd (zone_echoes s))])\<rparr>))"
proof -
  define user where "user = show_nat (lastUserId s + 1)"
  define s0 where "s0 = getUser user (s\<lparr>lastUserId := lastUserId s + 1\<rparr>)"
  define s1 where "s1 = s0\<lparr>objects := (objects s0)(user := (objects s0 user)\<lparr>name := Some n, avatar := Some av\<rparr>)\<rparr>"
  define s3 where "s3 = bind_user False user fresh c a (sendAll (UserMsg user (objects s1 user)) s1)"
  have c3: "map_of (connections s3) user = Some c"
    by (simp add: s3_def bind_user_connected)
  have o1: "outbox s1 = outbox s" "zone_echoes s1 = zone_echoes s" "connections s1 = connections s"
    by (simp_all add: s1_def s0_def getUser_def)
  have o3: "outbox s3 = outbox s @ [SendAll (UserMsg user (objects s1 user)) (map snd (connections s))]"
    "zone_echoes s3 = zone_echoes s"
    by (simp_all add: s3_def bind_user_eq sendAll_def o1)
  have cm: "core_messages s3 = core_messages s1"
    by (simp add: core_messages_def s3_def bind_user_eq sendAll_def)
  have b: "s3 = (bind_user False user fresh c a s1)\<lparr>outbox := outbox s3\<rparr>"
    by (simp add: s3_def bind_user_eq sendAll_def)
  have "ws_zone_ticket c a ticket fresh s =
         (case and_then (sendCoreState user s3) (\<lambda>s4.
                and_then (sendOnly (Assign user fresh) user s4) (\<lambda>s5. sendOtherState user s5)) of
            (None, s6) \<Rightarrow> (NoReply, s6) | (Some e, s6) \<Rightarrow> (Thrown e, s6))"
    using assms by (simp add: ws_zone_ticket_def requireNotBanned_def Let_def s3_def s1_def s0_def user_def)
  then have "ws_zone_ticket c a ticket fresh s =
       (NoReply, s3\<lparr>outbox := outbox s3 @ map (\<lambda>m. Send m c)
               (core_messages s1 @ [Assign user fresh, EchoesAdded (map snd (zone_echoes s))])\<rparr>)"
    by (simp add: join_sends [OF c3] o3 cm)
  then have "ws_zone_ticket c a ticket fresh s =
       (NoReply, (bind_user False user fresh c a s1)\<lparr>outbox := outbox s @ SendAll (UserMsg user (objects s1 user)) (map snd (connections s))
                 # map (\<lambda>m. Send m c)
                     (core_messages s1 @ [Assign user fresh, EchoesAdded (map snd (zone_echoes s))])\<rparr>)"
    by (simp add: o3(1)) (subst b, simp add: o3(1))
  then show ?thesis
    by (simp add: Let_def s1_def s0_def user_def)
qed

lemma room1_eq:
  "room1 =
     host0\<lparr>lastUserId := 1,
       tokenToUser := [''tokenA'' \<mapsto> ''1''], userToToken := [''1'' \<mapsto> ''tokenA''],
       userToIp := [''1'' \<mapsto> ''10.0.0.1''], connections := [(''1'', 1)],
       userToConnections := [''1'' \<mapsto> [1]], zone_users := [''1''],
       objects := (\<lambda>u. default_user)(''1'' := default_user\<lparr>name := Some ''ann'', avatar := Some ''QUJD''\<rparr>),
       bound := [(1, ''1'')],
       tickets := [(''ticketA'', (''ann'', ''QUJD''))],
       outbox := [SendAll (UserMsg ''1'' (default_user\<lparr>name := Some ''ann'', avatar := Some ''QUJD''\<rparr>)) [],
                  Send (Users [(''1'', default_user\<lparr>name := Some ''ann'', avatar := Some ''QUJD''\<rparr>)]) 1,
                  Send (QueueMsg []) 1, Send (Play None) 1, Send (Assign ''1'' ''tokenA'') 1,
                  Send (EchoesAdded []) 1]\<rparr>"
proof -
  have j: "snd (zone_join ''10.0.0.1'' ''ann'' ''QUJD'' ''ticketA'' host0) =
             host0\<lparr>tickets := [(''ticketA'', (''ann'', ''QUJD''))]\<rparr>"
    by (simp add: zone_join_def requireNotBanned_def host0_def)
  have b: "bans (host0\<lparr>tickets := [(''ticketA'', (''ann'', ''QUJD''))]\<rparr>) ''10.0.0.1'' = None"
    by (simp add: host0_def)
  have t: "map_of (tickets (host0\<lparr>tickets := [(''ticketA'', (''ann'', ''QUJD''))]\<rparr>)) ''ticketA'' = Some (''ann'', ''QUJD'')"
    by simp
  show ?thesis
    unfolding room1_def j
    by (simp add: ws_zone_ticket_eq [OF b t])
       (simp add: host0_def getUser_def bind_user_eq core_messages_def set_add_def playback0_def Let_def)
qed

lemma room2_eq:
  "room2 =
     room1\<lparr>lastUserId := 2,
       tokenToUser := [''tokenA'' \<mapsto> ''1'', ''tokenB'' \<mapsto> ''2''],
       userToToken := [''1'' \<mapsto> ''tokenA'', ''2'' \<mapsto> ''tokenB''],
       userToIp := [''1'' \<mapsto> ''10.0.0.1'', ''2'' \<mapsto> ''10.0.0.2''],
       connections := [(''1'', 1), (''2'', 2)],
       userToConnections := [''1'' \<mapsto> [1], ''2'' \<mapsto> [2]], zone_users := [''1'', ''2''],
       objects := (\<lambda>u. default_user)(''1'' := default_user\<lparr>name := Some ''ann'', avatar := Some ''QUJD''\<rparr>,
                                       ''2'' := default_user\<lparr>name := Some ''bob'', avatar := Some ''REVG''\<rparr>),
       bound := [(1, ''1''), (2, ''2'')],
       tickets := [(''ticketA'', (''ann'', ''QUJD'')), (''ticketB'', (''bob'', ''REVG''))],
       outbox := outbox room1 @
                 [SendAll (UserMsg ''2'' (default_user\<lparr>name := Some ''bob'', avatar := Some ''REVG''\<rparr>)) [1],
                  Send (Users [(''1'', default_user\<lparr>name := Some ''ann'', avatar := Some ''QUJD''\<rparr>),
                               (''2'', default_user\<lparr>name := Some ''bob'', avatar := Some ''REVG''\<rparr>)]) 2,
                  Send (QueueMsg []) 2, Send (Play None) 2, Send (Assign ''2'' ''tokenB'') 2,
                  Send (EchoesAdded []) 2]\<rparr>"
proof -
  have j: "snd (zone_join ''10.0.0.2'' ''bob'' ''REVG'' ''ticketB'' room1) =
             room1\<lparr>tickets := [(''ticketA'', (''ann'', ''QUJD'')), (''ticketB'', (''bob'', ''REVG''))]\<rparr>"
    by (simp add: zone_join_def requireNotBanned_def room1_eq host0_def)
  have b: "bans (room1\<lparr>tickets := [(''ticketA'', (''ann'', ''QUJD'')), (''ticketB'', (''bob'', ''REVG''))]\<rparr>) ''10.0.0.2'' = None"
    by (simp add: room1_eq host0_def)
  have t: "map_of (tickets (room1\<lparr>tickets := [(''ticketA'', (''ann'', ''QUJD'')), (''ticketB'', (''bob'', ''REVG''))]\<rparr>)) ''ticketB'' = Some (''bob'', ''REVG'')"
    by simp
  show ?thesis
    unfolding room2_def j
    by (simp add: ws_zone_ticket_eq [OF b t])
       (simp add: room1_eq host0_def getUser_def bind_user_eq core_messages_def set_add_def
          playback0_def Let_def fun_upd_twist)
qed

lemma room_playing_eq:
  "room_playing =
     room2\<lparr>playback := playback0\<lparr>lastItemId := 1, currentItem := Some itemA, currentBeginTime := 1000\<rparr>,
       outbox := outbox room2 @ [SendAll (QueueMsg [itemA]) [1, 2], SendAll (Play (Some (itemA, - 1000))) [1, 2]]\<rparr>"
  unfolding room_playing_def
  by (simp add: tryQueueMedia_v1_def queueMedia_eq room2_eq room1_eq host0_def options0_def
        playback0_def itemA_def mediaA_def Let_def)

lemma room_queued_eq:
  "room_queued =
     room_playing\<lparr>playback := playback0\<lparr>lastItemId := 2, currentItem := Some itemA, currentBeginTime := 1000,
                                     queue := [itemB]\<rparr>,
       outbox := outbox room_playing @ [SendAll (QueueMsg [itemB]) [1, 2]]\<rparr>"
  unfolding room_queued_def
  by (simp add: tryQueueMedia_v1_def queueMedia_eq room_playing_eq room2_eq room1_eq host0_def options0_def
        playback0_def itemB_def mediaB_def Let_def)

lemma room2_facts:
  "currentItem (playback room2) = None" "zone_users room2 = [''1'', ''2'']" "skips room2 = []"
  "connections room2 = [(''1'', 1), (''2'', 2)]" "opts room2 = options0" "bans room2 = Map.empty"
  "zone_echoes room2 = []" "lastUserId room2 = 2"
  "objects room2 ''1'' = default_user\<lparr>name := Some ''ann'', avatar := Some ''QUJD''\<rparr>"
  "objects room2 ''2'' = default_user\<lparr>name := Some ''bob'', avatar := Some ''REVG''\<rparr>"
  by (simp_all add: room2_eq room1_eq host0_def playback0_def)

lemma room_playing_facts:
  "currentItem (playback room_playing) = Some itemA" "queue (playback room_playing) = []"
  "zone_users room_playing = [''1'', ''2'']" "skips room_playing = []"
  "connections room_playing = [(''1'', 1), (''2'', 2)]" "opts room_playing = options0"
  "clock room_playing = 0" "eventMode room_playing = False"
  by (simp_all add: room_playing_eq room2_eq room1_eq host0_def playback0_def)

lemma room_queued_facts:
  "currentItem (playback room_queued) = Some itemA" "queue (playback room_queued) = [itemB]"
  "currentBeginTime (playback room_queued) = 1000"
  "zone_users room_queued = [''1'', ''2'']" "skips room_queued = []"
  "connections room_queued = [(''1'', 1), (''2'', 2)]" "opts room_queued = options0"
  "clock room_queued = 0" "eventMode room_queued = False"
  "tags (objects room_queued ''1'') = []" "tags (objects room_queued ''2'') = []"
  "userToIp room_queued ''2'' = Some ''10.0.0.2''" "userToIp room_queued ''1'' = Some ''10.0.0.1''"
  by (simp_all add: room_queued_eq room_playing_eq room2_eq room1_eq host0_def playback0_def default_user_def)

section \<open>Votes\<close>





lemma target_two_users:
  "zone_users s = [''1'', ''2''] \<Longrightarrow> opts s = options0 \<Longrightarrow> skip_target s = 2"
  by (simp add: skip_target_def options0_def ceiling_eq_iff)

lemma one_vote_eq:
  "one_vote = playingA\<lparr>skips := [''1''],
       outbox := outbox playingA @ [SendAll (Status ''1 of 2 votes to skip'') [1, 2]]\<rparr>"
proof -
  have eq: "one_vote = cast_vote itemA ''1'' playingA"
    by (simp add: one_vote_def voteSkip_v0_def playingA_facts itemA_def mediaA_def)
  show ?thesis
    unfolding eq
    by (simp add: cast_vote_eq target_two_users playingA_facts set_add_def show_int_def)
qed

lemma one_vote_facts:
  "currentItem (playback one_vote) = Some itemA" "queue (playback one_vote) = []"
  "zone_users one_vote = [''1'', ''2'']" "skips one_vote = [''1'']"
  "connections one_vote = [(''1'', 1), (''2'', 2)]" "opts one_vote = options0"
  by (simp_all add: one_vote_eq playingA_facts)

lemma two_votes_eq:
  "two_votes = one_vote\<lparr>skips := [''1'', ''2''],
       playback := (playback one_vote)\<lparr>currentItem := None\<rparr>,
       outbox := outbox one_vote @ [SendAll (Status ''voted to skip A'') [1, 2], SendAll (Play None) [1, 2]]\<rparr>"
proof -
  have eq: "two_votes = cast_vote itemA ''2'' one_vote"
    by (simp add: two_votes_def voteSkip_v0_def one_vote_facts itemA_def mediaA_def)
  show ?thesis
    unfolding eq
    by (simp add: cast_vote_eq skip_eq target_two_users one_vote_facts set_add_def itemA_def mediaA_def)
qed

lemma room_one_vote_eq:
  "room_one_vote = room_playing\<lparr>skips := [''1''],
       outbox := outbox room_playing @ [SendAll (Status ''1 of 2 votes to skip'') [1, 2]]\<rparr>"
proof -
  have eq: "room_one_vote = cast_vote itemA ''1'' room_playing"
    by (simp add: room_one_vote_def voteSkip_v1_def room_playing_facts itemA_def)
  show ?thesis
    unfolding eq
    by (simp add: cast_vote_eq target_two_users room_playing_facts set_add_def show_int_def)
qed

lemma room_one_vote_facts:
  "currentItem (playback room_one_vote) = Some itemA" "queue (playback room_one_vote) = []"
  "zone_users room_one_vote = [''1'', ''2'']" "skips room_one_vote = [''1'']"
  "connections room_one_vote = [(''1'', 1), (''2'', 2)]" "opts room_one_vote = options0"
  by (simp_all add: room_one_vote_eq room_playing_facts)

lemma room_two_votes_eq:
  "room_two_votes = room_one_vote\<lparr>skips := [''1'', ''2''],
       playback := (playback room_one_vote)\<lparr>currentItem := None\<rparr>,
       outbox := outbox room_one_vote @ [SendAll (Status ''voted to skip A'') [1, 2], SendAll (Play None) [1, 2]]\<rparr>"
proof -
  have eq: "room_two_votes = cast_vote itemA ''2'' room_one_vote"
    by (simp add: room_two_votes_def voteSkip_v1_def room_one_vote_facts itemA_def)
  show ?thesis
    unfolding eq
    by (simp add: cast_vote_eq skip_eq target_two_users room_one_vote_facts set_add_def itemA_def mediaA_def)
qed



section \<open>The vote set and the playing item\<close>

text \<open>
  C7 (as amended; the events of \<^verbatim>\<open>Playback.skip\<close> and \<^verbatim>\<open>Playback.queueMedia\<close> follow the
  spec).  The vote set is cleared whenever an item starts playing, by the host's listener of
  \<^verbatim>\<open>play\<close>: after a skip that promotes the head of the queue, forced by votes or not, and
  after queueing while idle.  A skip with an empty queue stops playback (event \<^verbatim>\<open>stop\<close>,
  broadcast of an empty \<^verbatim>\<open>play\<close> message) and leaves the vote set as it was; while nothing
  plays no vote is cast.
\<close>

theorem votes_cleared_when_item_starts:
  "skips (listeners (EvPlay item) s) = []
   \<and> (queue (playback s) = item # rest \<longrightarrow>
        skips (skip message s) = []
        \<and> currentItem (playback (skip message s)) = Some item
        \<and> queue (playback (skip message s)) = rest)
   \<and> (queue (playback s) = [] \<longrightarrow>
        skips (skip message s) = skips s
        \<and> currentItem (playback (skip message s)) = None
        \<and> queue (playback (skip message s)) = []
        \<and> (\<exists>pre. outbox (skip message s) = outbox s @ pre @ [SendAll (Play None) (map snd (connections s))]))
   \<and> (currentItem (playback s) = None \<longrightarrow>
        skips (queueMedia m i s) = []
        \<and> currentItem (playback (queueMedia m i s)) = Some \<lparr>itemId = lastItemId (playback s) + 1, media = m, info = i\<rparr>
        \<and> voteSkip_v0 src user s = s
        \<and> voteSkip_v1 iid user s = s)"
proof (intro conjI impI)
  show "skips (listeners (EvPlay item) s) = []"
    by (simp add: listeners_def sendAll_def)
next
  assume q: "queue (playback s) = item # rest"
  show "skips (skip message s) = []"
    "currentItem (playback (skip message s)) = Some item"
    "queue (playback (skip message s)) = rest"
    by (simp_all add: skip_eq q)
next
  assume q: "queue (playback s) = []"
  show "skips (skip message s) = skips s"
    "currentItem (playback (skip message s)) = None"
    "queue (playback (skip message s)) = []"
    by (simp_all add: skip_eq q)
  show "\<exists>pre. outbox (skip message s) = outbox s @ pre @ [SendAll (Play None) (map snd (connections s))]"
    by (simp add: skip_eq q)
next
  assume c: "currentItem (playback s) = None"
  show "skips (queueMedia m i s) = []"
    "currentItem (playback (queueMedia m i s)) = Some \<lparr>itemId = lastItemId (playback s) + 1, media = m, info = i\<rparr>"
    by (simp_all add: queueMedia_eq c)
  show "voteSkip_v0 src user s = s" "voteSkip_v1 iid user s = s"
    by (simp_all add: voteSkip_v0_def voteSkip_v1_def c)
qed

theorem votes_cleared_when_item_starts_witness:
  "queue (playback (queuedB\<lparr>skips := [''2'']\<rparr>)) = [itemB]
   \<and> skips (skip (Some ''admin skipped A'') (queuedB\<lparr>skips := [''2'']\<rparr>)) = []
   \<and> currentItem (playback (skip (Some ''admin skipped A'') (queuedB\<lparr>skips := [''2'']\<rparr>))) = Some itemB
   \<and> queue (playback one_vote) = []
   \<and> skips (skip None one_vote) = [''1'']
   \<and> currentItem (playback (skip None one_vote)) = None
   \<and> currentItem (playback zone2) = None
   \<and> skips (queueMedia mediaA (info itemA) zone2) = []
   \<and> voteSkip_v0 ''youtube:a'' ''1'' zone2 = zone2
   \<and> currentItem (playback room2) = None
   \<and> voteSkip_v1 1 ''1'' room2 = room2"
proof -
  note T = votes_cleared_when_item_starts [where src = "''youtube:a''" and user = "''1''" and iid = 1
      and m = mediaA and i = "info itemA"]
  have q1: "queue (playback (queuedB\<lparr>skips := [''2'']\<rparr>)) = [itemB]"
    by (simp add: queuedB_facts)
  have z: "currentItem (playback zone2) = None"
    by (simp add: zone2_eq zone1_eq host0_def playback0_def)
  have r1: "skips (skip (Some ''admin skipped A'') (queuedB\<lparr>skips := [''2'']\<rparr>)) = []
     \<and> currentItem (playback (skip (Some ''admin skipped A'') (queuedB\<lparr>skips := [''2'']\<rparr>))) = Some itemB"
    using T [of itemB "queuedB\<lparr>skips := [''2'']\<rparr>" "[]" "Some ''admin skipped A''"] q1 by blast
  have r2: "skips (skip None one_vote) = skips one_vote \<and> currentItem (playback (skip None one_vote)) = None"
    using T [of itemB one_vote "[]" None] one_vote_facts(2) by blast
  have r3: "skips (queueMedia mediaA (info itemA) zone2) = [] \<and> voteSkip_v0 ''youtube:a'' ''1'' zone2 = zone2"
    using T [of itemB zone2 "[]" None] z by blast
  have r4: "voteSkip_v1 1 ''1'' room2 = room2"
    using T [of itemB room2 "[]" None] room2_facts(1) by blast
  show ?thesis
    using q1 r1 r2 r3 r4 z room2_facts(1) one_vote_facts(2) one_vote_facts(4) by simp
qed

text \<open>Against C7 as stated ("after skip() is invoked with an empty queue, the vote set is
  empty"): A plays with nothing pending, Ann votes, Bob's vote reaches the target of two,
  the skip stops playback, and both votes are still in the set; so in both revisions.\<close>

theorem votes_left_after_stop_counterexample:
  "currentItem (playback room_one_vote) = Some itemA
   \<and> queue (playback room_one_vote) = []
   \<and> room_two_votes = skip (Some ''voted to skip A'') (room_one_vote\<lparr>skips := [''1'', ''2'']\<rparr>)
   \<and> currentItem (playback room_two_votes) = None
   \<and> skips room_two_votes = [''1'', ''2'']
   \<and> skips room_two_votes \<noteq> []
   \<and> currentItem (playback one_vote) = Some itemA
   \<and> queue (playback one_vote) = []
   \<and> two_votes = skip (Some ''voted to skip A'') (one_vote\<lparr>skips := [''1'', ''2'']\<rparr>)
   \<and> currentItem (playback two_votes) = None
   \<and> skips two_votes = [''1'', ''2'']
   \<and> skips two_votes \<noteq> []"
  by (simp add: two_votes_eq one_vote_facts room_two_votes_eq room_one_vote_facts skip_eq)

section \<open>Queueing a duplicate\<close>

lemma status_user_eq:
  "status_user txt user s =
     (case map_of (connections s) user of
        None \<Rightarrow> (Some TypeError, s)
      | Some c \<Rightarrow> (None, s\<lparr>outbox := outbox s @ [Send (Status txt) c]\<rparr>))"
  by (simp add: status_user_def sendOnly_def)

lemma status_user_frame:
  "playback (snd (status_user txt user s)) = playback s"
  "skips (snd (status_user txt user s)) = skips s"
  "zone_echoes (snd (status_user txt user s)) = zone_echoes s"
  by (simp_all add: status_user_eq split: option.split)

lemma find_source:
  assumes "q \<in> set xs" "source (media q) = source m"
  shows "\<exists>queued. find (\<lambda>x. source (media x) = source m) xs = Some queued
           \<and> queued \<in> set xs \<and> source (media queued) = source m"
proof (cases "find (\<lambda>x. source (media x) = source m) xs")
  case None
  then show ?thesis using assms by (auto simp add: find_None_iff)
next
  case (Some queued)
  then show ?thesis by (auto simp add: find_Some_iff)
qed

text \<open>
  C5.  When the media has the identity (the source) of a pending queue item, \<^verbatim>\<open>tryQueueMedia\<close>
  does not queue it: the newer revision throws an error and leaves the whole state as it
  is; the older one sends the requester a status, or fails on the missing channel of a
  requester that has none, and leaves playback, and with it the queue, as it is.  The text
  names the pending item, or says that only djs may queue when event mode refuses the
  requester first.
\<close>

theorem duplicate_media_is_rejected:
  assumes "q \<in> set (queue (playback s))" "source (media q) = source m"
  shows "\<exists>queued new_text old_text.
       find (\<lambda>x. source (media x) = source m) (queue (playback s)) = Some queued
     \<and> queued \<in> set (queue (playback s)) \<and> source (media queued) = source m
     \<and> new_text = (if eventMode s \<and> ''dj'' \<notin> set (tags (objects s user))
                    then ''only djs may queue during event mode''
                    else quoted (title (media queued)) @ '' is already queued'')
     \<and> old_text = (if eventMode s \<and> ''dj'' \<notin> set (tags (objects s user))
                    then ''zone is currently in event mode, only djs may queue''
                    else quoted (title (media queued)) @ '' is already queued'')
     \<and> tryQueueMedia_v1 user m bng s = (Some (Error new_text), s)
     \<and> tryQueueMedia_v0 user m bng s = status_user old_text user s
     \<and> playback (snd (tryQueueMedia_v0 user m bng s)) = playback s
     \<and> (map_of (connections s) user = None \<longrightarrow> tryQueueMedia_v0 user m bng s = (Some TypeError, s))
     \<and> (\<forall>c. map_of (connections s) user = Some c \<longrightarrow>
           tryQueueMedia_v0 user m bng s = (None, s\<lparr>outbox := outbox s @ [Send (Status old_text) c]\<rparr>))"
proof -
  from find_source [OF assms] obtain queued where
    f: "find (\<lambda>x. source (media x) = source m) (queue (playback s)) = Some queued"
    and g: "queued \<in> set (queue (playback s))" "source (media queued) = source m"
    by blast
  define new_text where "new_text = (if eventMode s \<and> ''dj'' \<notin> set (tags (objects s user))
                    then ''only djs may queue during event mode''
                    else quoted (title (media queued)) @ '' is already queued'')"
  define old_text where "old_text = (if eventMode s \<and> ''dj'' \<notin> set (tags (objects s user))
                    then ''zone is currently in event mode, only djs may queue''
                    else quoted (title (media queued)) @ '' is already queued'')"
  have n: "tryQueueMedia_v1 user m bng s = (Some (Error new_text), s)"
    by (simp add: tryQueueMedia_v1_def f new_text_def Let_def)
  have f': "find (\<lambda>queued. mediaEquals (media queued) m) (queue (playback s)) = Some queued"
    using f by (simp add: mediaEquals_def)
  have o: "tryQueueMedia_v0 user m bng s = status_user old_text user s"
    by (simp add: tryQueueMedia_v0_def f' old_text_def Let_def)
  have p: "playback (snd (tryQueueMedia_v0 user m bng s)) = playback s"
    by (simp add: o status_user_frame)
  have t: "map_of (connections s) user = None \<longrightarrow> tryQueueMedia_v0 user m bng s = (Some TypeError, s)"
    by (simp add: o status_user_eq)
  have c: "\<forall>c. map_of (connections s) user = Some c \<longrightarrow>
           tryQueueMedia_v0 user m bng s = (None, s\<lparr>outbox := outbox s @ [Send (Status old_text) c]\<rparr>)"
    by (simp add: o status_user_eq)
  show ?thesis
  proof (intro exI conjI)
    show "find (\<lambda>x. source (media x) = source m) (queue (playback s)) = Some queued"
      by (rule f)
    show "queued \<in> set (queue (playback s))" "source (media queued) = source m"
      by (rule g)+
    show "new_text = (if eventMode s \<and> ''dj'' \<notin> set (tags (objects s user))
                    then ''only djs may queue during event mode''
                    else quoted (title (media queued)) @ '' is already queued'')"
      by (rule new_text_def)
    show "old_text = (if eventMode s \<and> ''dj'' \<notin> set (tags (objects s user))
                    then ''zone is currently in event mode, only djs may queue''
                    else quoted (title (media queued)) @ '' is already queued'')"
      by (rule old_text_def)
    show "tryQueueMedia_v1 user m bng s = (Some (Error new_text), s)"
      by (rule n)
    show "tryQueueMedia_v0 user m bng s = status_user old_text user s"
      by (rule o)
    show "playback (snd (tryQueueMedia_v0 user m bng s)) = playback s"
      by (rule p)
    show "map_of (connections s) user = None \<longrightarrow> tryQueueMedia_v0 user m bng s = (Some TypeError, s)"
      by (rule t)
    show "\<forall>c. map_of (connections s) user = Some c \<longrightarrow>
           tryQueueMedia_v0 user m bng s = (None, s\<lparr>outbox := outbox s @ [Send (Status old_text) c]\<rparr>)"
      by (rule c)
  qed
qed


lemma bob_gone_facts:
  "queue (playback bob_gone) = [itemB]" "map_of (connections bob_gone) ''2'' = None"
proof -
  have b: "map_of (bound queuedB) 2 = Some ''2''"
    by (simp add: queuedB_eq playingA_eq zone2_eq)
  have eq: "bob_gone =
      killUser ''2'' (removeConnectionFromUser ''2'' 2 (queuedB\<lparr>bound := AList.delete 2 (bound queuedB)\<rparr>))"
    unfolding bob_gone_def by (rule on_close_clean [OF b]) simp
  show "queue (playback bob_gone) = [itemB]" "map_of (connections bob_gone) ''2'' = None"
    unfolding eq
    by (simp_all add: killUser_eq removeConnectionFromUser_eq queuedB_facts AList.delete_conv')
qed

theorem duplicate_media_is_rejected_witness:
  "itemB \<in> set (queue (playback queuedB))
   \<and> source (media itemB) = source mediaB
   \<and> tryQueueMedia_v0 ''1'' mediaB False queuedB =
        (None, queuedB\<lparr>outbox := outbox queuedB @ [Send (Status (quoted ''B'' @ '' is already queued'')) 1]\<rparr>)
   \<and> queue (playback (snd (tryQueueMedia_v0 ''1'' mediaB False queuedB))) = [itemB]
   \<and> itemB \<in> set (queue (playback bob_gone))
   \<and> map_of (connections bob_gone) ''2'' = None
   \<and> tryQueueMedia_v0 ''2'' mediaB False bob_gone = (Some TypeError, bob_gone)
   \<and> itemB \<in> set (queue (playback room_queued))
   \<and> tryQueueMedia_v1 ''1'' mediaB False room_queued =
        (Some (Error (quoted ''B'' @ '' is already queued'')), room_queued)"
proof -
  have a: "itemB \<in> set (queue (playback queuedB))" "source (media itemB) = source mediaB"
    by (simp_all add: queuedB_facts itemB_def)
  from duplicate_media_is_rejected [OF a, of "''1''" False]
  obtain queued new_text old_text where
    H: "find (\<lambda>x. source (media x) = source mediaB) (queue (playback queuedB)) = Some queued
     \<and> queued \<in> set (queue (playback queuedB)) \<and> source (media queued) = source mediaB
     \<and> new_text = (if eventMode queuedB \<and> ''dj'' \<notin> set (tags (objects queuedB ''1''))
                    then ''only djs may queue during event mode''
                    else quoted (title (media queued)) @ '' is already queued'')
     \<and> old_text = (if eventMode queuedB \<and> ''dj'' \<notin> set (tags (objects queuedB ''1''))
                    then ''zone is currently in event mode, only djs may queue''
                    else quoted (title (media queued)) @ '' is already queued'')
     \<and> tryQueueMedia_v1 ''1'' mediaB False queuedB = (Some (Error new_text), queuedB)
     \<and> tryQueueMedia_v0 ''1'' mediaB False queuedB = status_user old_text ''1'' queuedB
     \<and> playback (snd (tryQueueMedia_v0 ''1'' mediaB False queuedB)) = playback queuedB
     \<and> (map_of (connections queuedB) ''1'' = None \<longrightarrow>
           tryQueueMedia_v0 ''1'' mediaB False queuedB = (Some TypeError, queuedB))
     \<and> (\<forall>c. map_of (connections queuedB) ''1'' = Some c \<longrightarrow>
           tryQueueMedia_v0 ''1'' mediaB False queuedB =
             (None, queuedB\<lparr>outbox := outbox queuedB @ [Send (Status old_text) c]\<rparr>))"
    by (elim exE)
  have q: "queued = itemB"
    using H by (simp add: queuedB_facts)
  have t: "old_text = quoted ''B'' @ '' is already queued''"
    using H by (simp_all add: q queuedB_facts itemB_def mediaB_def)
  have c: "map_of (connections queuedB) ''1'' = Some 1"
    by (simp add: queuedB_facts)
  have r2: "playback (snd (tryQueueMedia_v0 ''1'' mediaB False queuedB)) = playback queuedB"
    and r3: "tryQueueMedia_v0 ''1'' mediaB False queuedB =
      (None, queuedB\<lparr>outbox := outbox queuedB @ [Send (Status old_text) 1]\<rparr>)"
    using H c by blast+
  have g: "itemB \<in> set (queue (playback bob_gone))"
    by (simp add: bob_gone_facts)
  from duplicate_media_is_rejected [OF g a(2), of "''2''" False]
  obtain queued' new_text' old_text' where
    G: "find (\<lambda>x. source (media x) = source mediaB) (queue (playback bob_gone)) = Some queued'
     \<and> queued' \<in> set (queue (playback bob_gone)) \<and> source (media queued') = source mediaB
     \<and> new_text' = (if eventMode bob_gone \<and> ''dj'' \<notin> set (tags (objects bob_gone ''2''))
                    then ''only djs may queue during event mode''
                    else quoted (title (media queued')) @ '' is already queued'')
     \<and> old_text' = (if eventMode bob_gone \<and> ''dj'' \<notin> set (tags (objects bob_gone ''2''))
                    then ''zone is currently in event mode, only djs may queue''
                    else quoted (title (media queued')) @ '' is already queued'')
     \<and> tryQueueMedia_v1 ''2'' mediaB False bob_gone = (Some (Error new_text'), bob_gone)
     \<and> tryQueueMedia_v0 ''2'' mediaB False bob_gone = status_user old_text' ''2'' bob_gone
     \<and> playback (snd (tryQueueMedia_v0 ''2'' mediaB False bob_gone)) = playback bob_gone
     \<and> (map_of (connections bob_gone) ''2'' = None \<longrightarrow>
           tryQueueMedia_v0 ''2'' mediaB False bob_gone = (Some TypeError, bob_gone))
     \<and> (\<forall>c. map_of (connections bob_gone) ''2'' = Some c \<longrightarrow>
           tryQueueMedia_v0 ''2'' mediaB False bob_gone =
             (None, bob_gone\<lparr>outbox := outbox bob_gone @ [Send (Status old_text') c]\<rparr>))"
    by (elim exE)
  have r4: "tryQueueMedia_v0 ''2'' mediaB False bob_gone = (Some TypeError, bob_gone)"
    using G bob_gone_facts(2) by blast
  have k: "itemB \<in> set (queue (playback room_queued))"
    by (simp add: room_queued_facts)
  from duplicate_media_is_rejected [OF k a(2), of "''1''" False]
  obtain queued2 new_text2 old_text2 where
    K: "find (\<lambda>x. source (media x) = source mediaB) (queue (playback room_queued)) = Some queued2
     \<and> queued2 \<in> set (queue (playback room_queued)) \<and> source (media queued2) = source mediaB
     \<and> new_text2 = (if eventMode room_queued \<and> ''dj'' \<notin> set (tags (objects room_queued ''1''))
                    then ''only djs may queue during event mode''
                    else quoted (title (media queued2)) @ '' is already queued'')
     \<and> old_text2 = (if eventMode room_queued \<and> ''dj'' \<notin> set (tags (objects room_queued ''1''))
                    then ''zone is currently in event mode, only djs may queue''
                    else quoted (title (media queued2)) @ '' is already queued'')
     \<and> tryQueueMedia_v1 ''1'' mediaB False room_queued = (Some (Error new_text2), room_queued)
     \<and> tryQueueMedia_v0 ''1'' mediaB False room_queued = status_user old_text2 ''1'' room_queued
     \<and> playback (snd (tryQueueMedia_v0 ''1'' mediaB False room_queued)) = playback room_queued
     \<and> (map_of (connections room_queued) ''1'' = None \<longrightarrow>
           tryQueueMedia_v0 ''1'' mediaB False room_queued = (Some TypeError, room_queued))
     \<and> (\<forall>c. map_of (connections room_queued) ''1'' = Some c \<longrightarrow>
           tryQueueMedia_v0 ''1'' mediaB False room_queued =
             (None, room_queued\<lparr>outbox := outbox room_queued @ [Send (Status old_text2) c]\<rparr>))"
    by (elim exE)
  have q2: "queued2 = itemB"
    using K by (simp add: room_queued_facts)
  have t2: "new_text2 = quoted ''B'' @ '' is already queued''"
    using K by (simp_all add: q2 room_queued_facts itemB_def mediaB_def)
  have r1: "tryQueueMedia_v1 ''1'' mediaB False room_queued = (Some (Error new_text2), room_queued)"
    using K by blast
  show ?thesis
    using a r1 r2 r3 g r4 k by (simp add: t t2 queuedB_facts bob_gone_facts)
qed

section \<open>Event mode\<close>

lemma event_night_eq:
  "event_night = queuedB\<lparr>eventMode := True,
       outbox := outbox queuedB @ [SendAll (Status ''event mode: true'') [1, 2]]\<rparr>"
  by (simp add: event_night_def command_mode_def status_def sendAll_def queuedB_facts)

lemma event_night_facts:
  "eventMode event_night" "currentItem (playback event_night) = Some itemA"
  "queue (playback event_night) = [itemB]" "skips event_night = []"
  "tags (objects event_night ''2'') = []" "tags (objects event_night ''1'') = []"
  "connections event_night = [(''1'', 1), (''2'', 2)]"
  by (simp_all add: event_night_eq queuedB_facts)

lemma dj_night_facts:
  "eventMode dj_night" "currentItem (playback dj_night) = Some itemA"
  "queue (playback dj_night) = [itemB]" "tags (objects dj_night ''1'') = [''dj'']"
  "name (objects dj_night ''1'') = Some ''ann''"
  by (simp_all add: dj_night_def event_night_facts event_night_eq queuedB_eq playingA_eq zone2_eq)

lemma room_event_eq:
  "room_event = room_queued\<lparr>eventMode := True,
       outbox := outbox room_queued @ [SendAll (Status ''event mode: true'') [1, 2]]\<rparr>"
  by (simp add: room_event_def command_mode_def status_def sendAll_def room_queued_facts)

lemma room_event_facts:
  "eventMode room_event" "currentItem (playback room_event) = Some itemA"
  "queue (playback room_event) = [itemB]" "skips room_event = []"
  "tags (objects room_event ''2'') = []" "tags (objects room_event ''1'') = []"
  "connections room_event = [(''1'', 1), (''2'', 2)]"
  by (simp_all add: room_event_eq room_queued_facts)

lemma room_dj_facts:
  "eventMode room_dj" "currentItem (playback room_dj) = Some itemA"
  "queue (playback room_dj) = [itemB]" "tags (objects room_dj ''1'') = [''dj'']"
  "name (objects room_dj ''1'') = Some ''ann''"
  by (simp_all add: room_dj_def room_event_facts room_event_eq room_queued_eq room_playing_eq room2_eq)

text \<open>
  C4 (as amended).  While event mode is on, a user without the tag \<^verbatim>\<open>dj\<close> can neither queue
  media (the request is refused and playback, with its queue, stays as it is) nor skip: its
  skip request for the playing item is refused, with response 403 in the newer revision and
  a status to the requester in the older one, and casts no vote.  A user with the tag
  queues without the per-address limit and skips the playing item at once.  Outside event
  mode a skip request for the playing item is a vote.
\<close>

theorem event_mode_gates_queue_and_skip:
  "(eventMode s \<and> ''dj'' \<notin> set (tags (objects s user)) \<longrightarrow>
       tryQueueMedia_v1 user m bng s = (Some (Error ''only djs may queue during event mode''), s)
     \<and> tryQueueMedia_v0 user m bng s =
         status_user ''zone is currently in event mode, only djs may queue'' user s
     \<and> playback (snd (tryQueueMedia_v0 user m bng s)) = playback s
     \<and> (currentItem (playback s) = Some cur \<longrightarrow>
          queue_skip_v1 user (itemId cur) s = (Reply 403 ''can't skip during event mode'', s)
        \<and> playback (snd (queue_skip_v0 user (source (media cur)) s)) = playback s
        \<and> skips (snd (queue_skip_v0 user (source (media cur)) s)) = skips s
        \<and> (\<forall>c. map_of (connections s) user = Some c \<longrightarrow>
              queue_skip_v0 user (source (media cur)) s =
                (Reply 202 [], s\<lparr>outbox := outbox s @ [Send (Status ''can't skip during event mode'') c]\<rparr>))))
   \<and> (eventMode s \<and> ''dj'' \<in> set (tags (objects s user)) \<longrightarrow>
       (find (\<lambda>x. source (media x) = source m) (queue (playback s)) = None \<longrightarrow>
          tryQueueMedia_v1 user m bng s =
            (None, queueMedia m \<lparr>info_userId = user, info_ip = userToIp s user, banger = bng\<rparr> s)
        \<and> tryQueueMedia_v0 user m bng s =
            (None, queueMedia m \<lparr>info_userId = user, info_ip = userToIp s user, banger = bng\<rparr> s))
     \<and> (currentItem (playback s) = Some cur \<longrightarrow>
          queue_skip_v1 user (itemId cur) s =
            (Reply 204 [], skip (Some (show_name (name (objects s user)) @ '' skipped '' @ title (media cur))) s)
        \<and> queue_skip_v0 user (source (media cur)) s =
            (Reply 202 [], skip (Some (show_name (name (objects s user)) @ '' skipped '' @ title (media cur))) s)))
   \<and> (\<not> eventMode s \<and> currentItem (playback s) = Some cur \<longrightarrow>
        queue_skip_v1 user (itemId cur) s = (Reply 202 [], voteSkip_v1 (itemId cur) user s)
      \<and> queue_skip_v0 user (source (media cur)) s = (Reply 202 [], voteSkip_v0 (source (media cur)) user s))"
proof (intro conjI impI allI)
  assume h: "eventMode s \<and> ''dj'' \<notin> set (tags (objects s user))"
  show "tryQueueMedia_v1 user m bng s = (Some (Error ''only djs may queue during event mode''), s)"
    using h by (simp add: tryQueueMedia_v1_def)
  show o: "tryQueueMedia_v0 user m bng s =
         status_user ''zone is currently in event mode, only djs may queue'' user s"
    using h by (simp add: tryQueueMedia_v0_def)
  show "playback (snd (tryQueueMedia_v0 user m bng s)) = playback s"
    by (simp add: o status_user_frame)
  {
    assume c: "currentItem (playback s) = Some cur"
    show "queue_skip_v1 user (itemId cur) s = (Reply 403 ''can't skip during event mode'', s)"
      using h c by (simp add: queue_skip_v1_def)
    have q: "queue_skip_v0 user (source (media cur)) s =
        (case status_user ''can't skip during event mode'' user s of
           (None, s1) \<Rightarrow> (Reply 202 [], s1)
         | (Some e, s1) \<Rightarrow> (Thrown e, s1))"
      using h c by (simp add: queue_skip_v0_def)
    show "playback (snd (queue_skip_v0 user (source (media cur)) s)) = playback s"
      "skips (snd (queue_skip_v0 user (source (media cur)) s)) = skips s"
      by (simp_all add: q status_user_eq split: option.split)
    fix c'
    assume "map_of (connections s) user = Some c'"
    then show "queue_skip_v0 user (source (media cur)) s =
                (Reply 202 [], s\<lparr>outbox := outbox s @ [Send (Status ''can't skip during event mode'') c']\<rparr>)"
      by (simp add: q status_user_eq)
  }
next
  assume h: "eventMode s \<and> ''dj'' \<in> set (tags (objects s user))"
  {
    assume f: "find (\<lambda>x. source (media x) = source m) (queue (playback s)) = None"
    show "tryQueueMedia_v1 user m bng s =
            (None, queueMedia m \<lparr>info_userId = user, info_ip = userToIp s user, banger = bng\<rparr> s)"
      using h f by (simp add: tryQueueMedia_v1_def Let_def)
    have f': "find (\<lambda>queued. mediaEquals (media queued) m) (queue (playback s)) = None"
      using f by (simp add: mediaEquals_def)
    show "tryQueueMedia_v0 user m bng s =
            (None, queueMedia m \<lparr>info_userId = user, info_ip = userToIp s user, banger = bng\<rparr> s)"
      using h f' by (simp add: tryQueueMedia_v0_def Let_def)
  }
  {
    assume c: "currentItem (playback s) = Some cur"
    show "queue_skip_v1 user (itemId cur) s =
            (Reply 204 [], skip (Some (show_name (name (objects s user)) @ '' skipped '' @ title (media cur))) s)"
      using h c by (simp add: queue_skip_v1_def)
    show "queue_skip_v0 user (source (media cur)) s =
            (Reply 202 [], skip (Some (show_name (name (objects s user)) @ '' skipped '' @ title (media cur))) s)"
      using h c by (simp add: queue_skip_v0_def)
  }
next
  assume h: "\<not> eventMode s \<and> currentItem (playback s) = Some cur"
  show "queue_skip_v1 user (itemId cur) s = (Reply 202 [], voteSkip_v1 (itemId cur) user s)"
    using h by (simp add: queue_skip_v1_def)
  show "queue_skip_v0 user (source (media cur)) s = (Reply 202 [], voteSkip_v0 (source (media cur)) user s)"
    using h by (simp add: queue_skip_v0_def)
qed


theorem event_mode_gates_queue_and_skip_witness:
  "eventMode event_night \<and> ''dj'' \<notin> set (tags (objects event_night ''2''))
   \<and> currentItem (playback event_night) = Some itemA
   \<and> playback (snd (tryQueueMedia_v0 ''2'' mediaC False event_night)) = playback event_night
   \<and> queue_skip_v0 ''2'' ''youtube:a'' event_night =
        (Reply 202 [], event_night\<lparr>outbox := outbox event_night @ [Send (Status ''can't skip during event mode'') 2]\<rparr>)
   \<and> eventMode dj_night \<and> ''dj'' \<in> set (tags (objects dj_night ''1''))
   \<and> currentItem (playback dj_night) = Some itemA
   \<and> find (\<lambda>x. source (media x) = source mediaC) (queue (playback dj_night)) = None
   \<and> tryQueueMedia_v0 ''1'' mediaC False dj_night =
        (None, queueMedia mediaC \<lparr>info_userId = ''1'', info_ip = userToIp dj_night ''1'', banger = False\<rparr> dj_night)
   \<and> queue_skip_v0 ''1'' ''youtube:a'' dj_night = (Reply 202 [], skip (Some ''ann skipped A'') dj_night)
   \<and> \<not> eventMode queuedB \<and> currentItem (playback queuedB) = Some itemA
   \<and> queue_skip_v0 ''2'' ''youtube:a'' queuedB = (Reply 202 [], voteSkip_v0 ''youtube:a'' ''2'' queuedB)
   \<and> eventMode room_event \<and> ''dj'' \<notin> set (tags (objects room_event ''2''))
   \<and> currentItem (playback room_event) = Some itemA
   \<and> tryQueueMedia_v1 ''2'' mediaC False room_event =
        (Some (Error ''only djs may queue during event mode''), room_event)
   \<and> queue_skip_v1 ''2'' 1 room_event = (Reply 403 ''can't skip during event mode'', room_event)
   \<and> eventMode room_dj \<and> ''dj'' \<in> set (tags (objects room_dj ''1''))
   \<and> currentItem (playback room_dj) = Some itemA
   \<and> find (\<lambda>x. source (media x) = source mediaC) (queue (playback room_dj)) = None
   \<and> tryQueueMedia_v1 ''1'' mediaC False room_dj =
        (None, queueMedia mediaC \<lparr>info_userId = ''1'', info_ip = userToIp room_dj ''1'', banger = False\<rparr> room_dj)
   \<and> queue_skip_v1 ''1'' 1 room_dj = (Reply 204 [], skip (Some ''ann skipped A'') room_dj)
   \<and> \<not> eventMode room_queued \<and> currentItem (playback room_queued) = Some itemA
   \<and> queue_skip_v1 ''2'' 1 room_queued = (Reply 202 [], voteSkip_v1 1 ''2'' room_queued)"
proof -
  note T = event_mode_gates_queue_and_skip [where m = mediaC and bng = False and cur = itemA]
  have i: "itemId itemA = 1" "source (media itemA) = ''youtube:a''" "title (media itemA) = ''A''"
    by (simp_all add: itemA_def mediaA_def)
  have e: "eventMode event_night \<and> ''dj'' \<notin> set (tags (objects event_night ''2''))"
    by (simp add: event_night_facts)
  have c: "map_of (connections event_night) ''2'' = Some 2"
    by (simp add: event_night_facts)
  have r1: "playback (snd (tryQueueMedia_v0 ''2'' mediaC False event_night)) = playback event_night"
    "queue_skip_v0 ''2'' (source (media itemA)) event_night =
        (Reply 202 [], event_night\<lparr>outbox := outbox event_night @ [Send (Status ''can't skip during event mode'') 2]\<rparr>)"
    using T [of event_night "''2''"] e event_night_facts(2) c by blast+
  have d: "eventMode dj_night \<and> ''dj'' \<in> set (tags (objects dj_night ''1''))"
    by (simp add: dj_night_facts)
  have f: "find (\<lambda>x. source (media x) = source mediaC) (queue (playback dj_night)) = None"
    by (simp add: dj_night_facts itemB_def mediaB_def mediaC_def)
  have r2: "tryQueueMedia_v0 ''1'' mediaC False dj_night =
        (None, queueMedia mediaC \<lparr>info_userId = ''1'', info_ip = userToIp dj_night ''1'', banger = False\<rparr> dj_night)"
    "queue_skip_v0 ''1'' (source (media itemA)) dj_night =
        (Reply 202 [], skip (Some (show_name (name (objects dj_night ''1'')) @ '' skipped '' @ title (media itemA))) dj_night)"
    using T [of dj_night "''1''"] d f dj_night_facts(2) by blast+
  have n: "\<not> eventMode queuedB \<and> currentItem (playback queuedB) = Some itemA"
    by (simp add: queuedB_facts)
  have r3: "queue_skip_v0 ''2'' (source (media itemA)) queuedB =
        (Reply 202 [], voteSkip_v0 (source (media itemA)) ''2'' queuedB)"
    using T [of queuedB "''2''"] n by blast
  have t: "show_name (name (objects dj_night ''1'')) = ''ann''"
    by (simp add: dj_night_facts show_name_def)
  have r2b: "queue_skip_v0 ''1'' ''youtube:a'' dj_night = (Reply 202 [], skip (Some ''ann skipped A'') dj_night)"
    using r2(2) by (simp add: t i)
  have e': "eventMode room_event \<and> ''dj'' \<notin> set (tags (objects room_event ''2''))"
    by (simp add: room_event_facts)
  have r4: "tryQueueMedia_v1 ''2'' mediaC False room_event =
        (Some (Error ''only djs may queue during event mode''), room_event)"
    "queue_skip_v1 ''2'' (itemId itemA) room_event = (Reply 403 ''can't skip during event mode'', room_event)"
    using T [of room_event "''2''"] e' room_event_facts(2) by blast+
  have d': "eventMode room_dj \<and> ''dj'' \<in> set (tags (objects room_dj ''1''))"
    by (simp add: room_dj_facts)
  have f': "find (\<lambda>x. source (media x) = source mediaC) (queue (playback room_dj)) = None"
    by (simp add: room_dj_facts itemB_def mediaB_def mediaC_def)
  have r5: "tryQueueMedia_v1 ''1'' mediaC False room_dj =
        (None, queueMedia mediaC \<lparr>info_userId = ''1'', info_ip = userToIp room_dj ''1'', banger = False\<rparr> room_dj)"
    "queue_skip_v1 ''1'' (itemId itemA) room_dj =
        (Reply 204 [], skip (Some (show_name (name (objects room_dj ''1'')) @ '' skipped '' @ title (media itemA))) room_dj)"
    using T [of room_dj "''1''"] d' f' room_dj_facts(2) by blast+
  have n': "\<not> eventMode room_queued \<and> currentItem (playback room_queued) = Some itemA"
    by (simp add: room_queued_facts)
  have r6: "queue_skip_v1 ''2'' (itemId itemA) room_queued = (Reply 202 [], voteSkip_v1 (itemId itemA) ''2'' room_queued)"
    using T [of room_queued "''2''"] n' by blast
  have t': "show_name (name (objects room_dj ''1'')) = ''ann''"
    by (simp add: room_dj_facts show_name_def)
  have r5b: "queue_skip_v1 ''1'' 1 room_dj = (Reply 204 [], skip (Some ''ann skipped A'') room_dj)"
    using r5(2) by (simp add: t' i)
  have old: "eventMode event_night \<and> ''dj'' \<notin> set (tags (objects event_night ''2''))
   \<and> currentItem (playback event_night) = Some itemA
   \<and> playback (snd (tryQueueMedia_v0 ''2'' mediaC False event_night)) = playback event_night
   \<and> queue_skip_v0 ''2'' ''youtube:a'' event_night =
        (Reply 202 [], event_night\<lparr>outbox := outbox event_night @ [Send (Status ''can't skip during event mode'') 2]\<rparr>)
   \<and> eventMode dj_night \<and> ''dj'' \<in> set (tags (objects dj_night ''1''))
   \<and> currentItem (playback dj_night) = Some itemA
   \<and> find (\<lambda>x. source (media x) = source mediaC) (queue (playback dj_night)) = None
   \<and> tryQueueMedia_v0 ''1'' mediaC False dj_night =
        (None, queueMedia mediaC \<lparr>info_userId = ''1'', info_ip = userToIp dj_night ''1'', banger = False\<rparr> dj_night)
   \<and> queue_skip_v0 ''1'' ''youtube:a'' dj_night = (Reply 202 [], skip (Some ''ann skipped A'') dj_night)
   \<and> \<not> eventMode queuedB \<and> currentItem (playback queuedB) = Some itemA
   \<and> queue_skip_v0 ''2'' ''youtube:a'' queuedB = (Reply 202 [], voteSkip_v0 ''youtube:a'' ''2'' queuedB)"
    using e d f n r1 r2(1) r2b r3 event_night_facts(2) dj_night_facts(2)
    unfolding i by blast
  have new: "eventMode room_event \<and> ''dj'' \<notin> set (tags (objects room_event ''2''))
   \<and> currentItem (playback room_event) = Some itemA
   \<and> tryQueueMedia_v1 ''2'' mediaC False room_event =
        (Some (Error ''only djs may queue during event mode''), room_event)
   \<and> queue_skip_v1 ''2'' 1 room_event = (Reply 403 ''can't skip during event mode'', room_event)
   \<and> eventMode room_dj \<and> ''dj'' \<in> set (tags (objects room_dj ''1''))
   \<and> currentItem (playback room_dj) = Some itemA
   \<and> find (\<lambda>x. source (media x) = source mediaC) (queue (playback room_dj)) = None
   \<and> tryQueueMedia_v1 ''1'' mediaC False room_dj =
        (None, queueMedia mediaC \<lparr>info_userId = ''1'', info_ip = userToIp room_dj ''1'', banger = False\<rparr> room_dj)
   \<and> queue_skip_v1 ''1'' 1 room_dj = (Reply 204 [], skip (Some ''ann skipped A'') room_dj)
   \<and> \<not> eventMode room_queued \<and> currentItem (playback room_queued) = Some itemA
   \<and> queue_skip_v1 ''2'' 1 room_queued = (Reply 202 [], voteSkip_v1 1 ''2'' room_queued)"
    using e' d' f' n' r4 r5(1) r5b r6 room_event_facts(2) room_dj_facts(2)
    unfolding i by blast
  show ?thesis
    using old new by (simp only: simp_thms)
qed

text \<open>Against C4 as stated ("a skip request from a non-dj user during event mode instead
  registers as a vote"): in event mode Bob, who is no dj, asks to skip the playing item A;
  both revisions refuse and the vote set stays empty.\<close>

theorem no_vote_in_event_mode_counterexample:
  "eventMode room_event
   \<and> ''dj'' \<notin> set (tags (objects room_event ''2''))
   \<and> currentItem (playback room_event) = Some itemA
   \<and> skips room_event = []
   \<and> queue_skip_v1 ''2'' (itemId itemA) room_event = (Reply 403 ''can't skip during event mode'', room_event)
   \<and> skips (snd (queue_skip_v1 ''2'' (itemId itemA) room_event)) = []
   \<and> eventMode event_night
   \<and> ''dj'' \<notin> set (tags (objects event_night ''2''))
   \<and> currentItem (playback event_night) = Some itemA
   \<and> skips event_night = []
   \<and> skips (snd (queue_skip_v0 ''2'' (source (media itemA)) event_night)) = []
   \<and> playback (snd (queue_skip_v0 ''2'' (source (media itemA)) event_night)) = playback event_night"
  by (simp add: queue_skip_v1_def queue_skip_v0_def event_night_facts room_event_facts status_user_eq)

section \<open>Echoes\<close>







section \<open>The health check of the queue\<close>

lemma unqueue_eq:
  "unqueue item s =
     (if item \<in> set (queue (playback s))
      then s\<lparr>playback := (playback s)\<lparr>queue := remove1 item (queue (playback s))\<rparr>,
             outbox := outbox s @ [SendAll (Unqueue (itemId item)) (map snd (connections s))]\<rparr>
      else s)"
  by (simp add: unqueue_def Playback_unqueue_def emit_all_def listeners_def sendAll_def)

lemma check_item_eq:
  "check_item probe item s =
     (if getMediaStatus probe (media item) = MediaFailed
      then s\<lparr>playback := (playback s)\<lparr>queue := remove1 item (queue (playback s))\<rparr>,
             outbox := outbox s
               @ (if item \<in> set (queue (playback s))
                  then [SendAll (Unqueue (itemId item)) (map snd (connections s))] else [])
               @ [SendAll (Status (''failed to load '' @ dquoted (title (media item))))
                    (map snd (connections s))]\<rparr>
      else s)"
  by (simp add: check_item_def unqueue_eq status_def sendAll_def remove1_idem)

lemma fold_check_frame:
  "currentItem (playback (fold (check_item probe) xs s)) = currentItem (playback s)
   \<and> currentBeginTime (playback (fold (check_item probe) xs s)) = currentBeginTime (playback s)
   \<and> skips (fold (check_item probe) xs s) = skips s
   \<and> clock (fold (check_item probe) xs s) = clock s"
  by (induction xs arbitrary: s) (simp_all add: check_item_eq)

lemma fold_check_queue:
  assumes "queue (playback s) = pre @ xs"
    and "\<forall>x \<in> set pre. getMediaStatus probe (media x) \<noteq> MediaFailed"
  shows "queue (playback (fold (check_item probe) xs s)) =
           pre @ filter (\<lambda>x. getMediaStatus probe (media x) \<noteq> MediaFailed) xs"
  using assms
proof (induction xs arbitrary: s pre)
  case Nil
  then show ?case by simp
next
  case (Cons x xs)
  show ?case
  proof (cases "getMediaStatus probe (media x) = MediaFailed")
    case True
    then have "x \<notin> set pre"
      using Cons.prems(2) by auto
    then have q: "queue (playback (check_item probe x s)) = pre @ xs"
      using True Cons.prems(1) by (simp add: check_item_eq remove1_append)
    from Cons.IH [OF q Cons.prems(2)] True show ?thesis
      by simp
  next
    case False
    then have q: "queue (playback (check_item probe x s)) = (pre @ [x]) @ xs"
      using Cons.prems(1) by (simp add: check_item_eq)
    have p: "\<forall>y \<in> set (pre @ [x]). getMediaStatus probe (media y) \<noteq> MediaFailed"
      using False Cons.prems(2) by simp
    from Cons.IH [OF q p] False show ?thesis
      by simp
  qed
qed

text \<open>
  C6 (as amended; \<^verbatim>\<open>Playback.unqueue\<close> follows the spec).  A check of the periodic health
  check whose probe reports \<^verbatim>\<open>failed\<close> takes the item out of the queue and broadcasts the
  removal (\<^verbatim>\<open>unqueue\<close>, when the item was still pending) and the status "failed to load"
  with the title to every channel; any other answer changes nothing.  No check touches the
  playing item, its start time or the vote set, so the health check skips nothing.  A whole
  pass leaves in the queue exactly the pending items whose probe did not report \<^verbatim>\<open>failed\<close>,
  in their order.
\<close>

theorem health_check_drops_failed_items:
  "currentItem (playback (check_item probe item s)) = currentItem (playback s)
   \<and> currentBeginTime (playback (check_item probe item s)) = currentBeginTime (playback s)
   \<and> skips (check_item probe item s) = skips s
   \<and> (getMediaStatus probe (media item) = MediaFailed \<longrightarrow>
        queue (playback (check_item probe item s)) = remove1 item (queue (playback s))
      \<and> outbox (check_item probe item s) =
          outbox s
          @ (if item \<in> set (queue (playback s))
             then [SendAll (Unqueue (itemId item)) (map snd (connections s))] else [])
          @ [SendAll (Status (''failed to load '' @ dquoted (title (media item))))
               (map snd (connections s))])
   \<and> (getMediaStatus probe (media item) \<noteq> MediaFailed \<longrightarrow> check_item probe item s = s)
   \<and> currentItem (playback (checkQueue probe s)) = currentItem (playback s)
   \<and> currentBeginTime (playback (checkQueue probe s)) = currentBeginTime (playback s)
   \<and> skips (checkQueue probe s) = skips s
   \<and> queue (playback (checkQueue probe s)) =
       filter (\<lambda>x. getMediaStatus probe (media x) \<noteq> MediaFailed) (queue (playback s))
   \<and> currentTime (clock (check_item probe item s)) (playback (check_item probe item s)) =
       currentTime (clock s) (playback s)
   \<and> currentTime (clock (checkQueue probe s)) (playback (checkQueue probe s)) =
       currentTime (clock s) (playback s)"
proof -
  have one: "currentItem (playback (check_item probe item s)) = currentItem (playback s)
     \<and> currentBeginTime (playback (check_item probe item s)) = currentBeginTime (playback s)
     \<and> skips (check_item probe item s) = skips s"
    by (simp add: check_item_eq)
  have failed: "getMediaStatus probe (media item) = MediaFailed \<longrightarrow>
        queue (playback (check_item probe item s)) = remove1 item (queue (playback s))
      \<and> outbox (check_item probe item s) =
          outbox s
          @ (if item \<in> set (queue (playback s))
             then [SendAll (Unqueue (itemId item)) (map snd (connections s))] else [])
          @ [SendAll (Status (''failed to load '' @ dquoted (title (media item))))
               (map snd (connections s))]"
    by (simp add: check_item_eq)
  have other: "getMediaStatus probe (media item) \<noteq> MediaFailed \<longrightarrow> check_item probe item s = s"
    by (simp add: check_item_eq)
  have pass: "currentItem (playback (checkQueue probe s)) = currentItem (playback s)
     \<and> currentBeginTime (playback (checkQueue probe s)) = currentBeginTime (playback s)
     \<and> skips (checkQueue probe s) = skips s"
    unfolding checkQueue_def using fold_check_frame [of probe "queue (playback s)" s] by simp
  have left: "queue (playback (checkQueue probe s)) =
       filter (\<lambda>x. getMediaStatus probe (media x) \<noteq> MediaFailed) (queue (playback s))"
    unfolding checkQueue_def using fold_check_queue [of s "[]" "queue (playback s)" probe] by simp
  have time1: "currentTime (clock (check_item probe item s)) (playback (check_item probe item s)) =
       currentTime (clock s) (playback s)"
    by (simp add: check_item_eq currentTime_def)
  have time2: "currentTime (clock (checkQueue probe s)) (playback (checkQueue probe s)) =
       currentTime (clock s) (playback s)"
    unfolding checkQueue_def using fold_check_frame [of probe "queue (playback s)" s]
    by (simp add: currentTime_def)
  show ?thesis
    using one failed other pass left time1 time2 by (intro conjI) (simp_all only: simp_thms)
qed


lemma probeB_facts:
  "getMediaStatus probeB (media itemB) = MediaFailed"
  "getMediaStatus probeB (media itemA) \<noteq> MediaFailed"
  by (simp_all add: getMediaStatus_def probeB_def itemA_def itemB_def mediaA_def mediaB_def)

theorem health_check_drops_failed_items_witness:
  "getMediaStatus probeB (media itemB) = MediaFailed
   \<and> queue (playback room_queued) = [itemB]
   \<and> queue (playback (check_item probeB itemB room_queued)) = []
   \<and> currentItem (playback (check_item probeB itemB room_queued)) = Some itemA
   \<and> currentBeginTime (playback (check_item probeB itemB room_queued)) = 1000
   \<and> getMediaStatus probeB (media itemA) \<noteq> MediaFailed
   \<and> check_item probeB itemA room_queued = room_queued
   \<and> queue (playback (checkQueue probeB room_queued)) = []
   \<and> currentItem (playback (checkQueue probeB room_queued)) = Some itemA"
proof -
  note T = health_check_drops_failed_items [where probe = probeB and s = room_queued]
  note TB = T [of itemB]
  note TA = T [of itemA]
  have r1: "currentItem (playback (check_item probeB itemB room_queued)) = currentItem (playback room_queued)"
    by (rule TB [THEN conjunct1])
  have r2: "currentBeginTime (playback (check_item probeB itemB room_queued)) = currentBeginTime (playback room_queued)"
    by (rule TB [THEN conjunct2, THEN conjunct1])
  have r3: "queue (playback (check_item probeB itemB room_queued)) = remove1 itemB (queue (playback room_queued))"
    by (rule TB [THEN conjunct2, THEN conjunct2, THEN conjunct2, THEN conjunct1, THEN mp,
          OF probeB_facts(1), THEN conjunct1])
  have r4: "check_item probeB itemA room_queued = room_queued"
    by (rule TA [THEN conjunct2, THEN conjunct2, THEN conjunct2, THEN conjunct2, THEN conjunct1, THEN mp,
          OF probeB_facts(2)])
  have r5: "currentItem (playback (checkQueue probeB room_queued)) = currentItem (playback room_queued)"
    by (rule TB [THEN conjunct2, THEN conjunct2, THEN conjunct2, THEN conjunct2, THEN conjunct2, THEN conjunct1])
  have r6: "queue (playback (checkQueue probeB room_queued)) =
       filter (\<lambda>x. getMediaStatus probeB (media x) \<noteq> MediaFailed) (queue (playback room_queued))"
    by (rule TB [THEN conjunct2, THEN conjunct2, THEN conjunct2, THEN conjunct2, THEN conjunct2,
          THEN conjunct2, THEN conjunct2, THEN conjunct2, THEN conjunct1])
  show ?thesis
    using probeB_facts by (simp add: r1 r2 r3 r4 r5 r6 room_queued_facts)
qed

text \<open>Against C6 as stated ("removed from the queue silently"): A plays, B is pending and its
  probe reports \<^verbatim>\<open>failed\<close>; the health check takes B out of the queue, leaves A playing, and
  broadcasts the removal and the status "failed to load" to both channels.\<close>

theorem health_check_broadcasts_counterexample:
  "currentItem (playback room_queued) = Some itemA
   \<and> queue (playback room_queued) = [itemB]
   \<and> getMediaStatus probeB (media itemB) = MediaFailed
   \<and> queue (playback (checkQueue probeB room_queued)) = []
   \<and> currentItem (playback (checkQueue probeB room_queued)) = Some itemA
   \<and> outbox (checkQueue probeB room_queued) =
       outbox room_queued @ [SendAll (Unqueue 2) [1, 2],
                         SendAll (Status (''failed to load '' @ dquoted ''B'')) [1, 2]]
   \<and> outbox (checkQueue probeB room_queued) \<noteq> outbox room_queued"
proof -
  have t: "title (media itemB) = ''B''" "itemId itemB = 2"
    by (simp_all add: itemB_def mediaB_def)
  show ?thesis
    by (simp add: checkQueue_def check_item_eq probeB_facts room_queued_facts t)
qed

end
